theory Spec2Isabelle
  imports Main "HOL-Library.Word" "HOL-Library.Sublist"
begin

unbundle bit_operations_syntax

section \<open>JavaScript values\<close>

text \<open>
  The fields a device message carries and the optional entries of the configuration are
  either absent (\<open>undefined\<close>), \<open>null\<close> or a string. The model covers these three
  kinds of value; numbers, booleans and nested objects in these positions are outside it.
\<close>

datatype jsval = Undefined | Null | Str string

text \<open>Truthiness as \<open>if (v)\<close> and \<open>!v\<close> read it: the empty string is falsy.\<close>

fun truthy :: "jsval \<Rightarrow> bool" where
  "truthy Undefined = False"
| "truthy Null = False"
| "truthy (Str s) = (s \<noteq> [])"

text \<open>Loose equality \<open>==\<close>: \<open>undefined\<close> and \<open>null\<close> equal each other and nothing else.\<close>

fun loose_eq :: "jsval \<Rightarrow> jsval \<Rightarrow> bool" where
  "loose_eq (Str a) (Str b) = (a = b)"
| "loose_eq (Str a) Undefined = False"
| "loose_eq (Str a) Null = False"
| "loose_eq Undefined (Str b) = False"
| "loose_eq Null (Str b) = False"
| "loose_eq Undefined Undefined = True"
| "loose_eq Undefined Null = True"
| "loose_eq Null Undefined = True"
| "loose_eq Null Null = True"

text \<open>Strict equality \<open>===\<close> on these values is equality of the values.\<close>

text \<open>String conversion as \<open>+\<close> applies it to an operand that is not a string.\<close>

fun to_string :: "jsval \<Rightarrow> string" where
  "to_string Undefined = ''undefined''"
| "to_string Null = ''null''"
| "to_string (Str s) = s"

text \<open>Exceptions a call can throw, and the two shapes of object the functions return.\<close>

datatype exn = TypeError | ReferenceError string | IOError | ParseError

datatype 'a reply = ErrorText string | Ok 'a

type_synonym byte = "8 word"

section \<open>Library functions on strings and buffers\<close>

text \<open>
  \<open>String.prototype.toUpperCase\<close> on the ASCII range, which is where the result of
  \<open>toHex()\<close> lives.
\<close>

definition upper_char :: "char \<Rightarrow> char" where
  "upper_char c =
     (let n = (of_char c :: nat) in if 97 \<le> n \<and> n \<le> 122 then char_of (n - 32) else c)"

definition toUpperCase :: "string \<Rightarrow> string" where
  "toUpperCase s = map upper_char s"

text \<open>
  \<open>String.prototype.replace\<close> with a string pattern: the first occurrence only.
\<close>

fun replace :: "string \<Rightarrow> string \<Rightarrow> string \<Rightarrow> string" where
  "replace pat rep [] = (if pat = [] then rep else [])"
| "replace pat rep (c # cs) =
     (if prefix pat (c # cs) then rep @ drop (length pat) (c # cs)
      else c # replace pat rep cs)"

text \<open>\<open>Buffer.prototype.toString('base64')\<close>.\<close>

definition b64_alphabet :: string where
  "b64_alphabet = ''ABCDEFGHIJKLMNOPQRSTUVWXYZabcdefghijklmnopqrstuvwxyz0123456789+/''"

definition b64_char :: "nat \<Rightarrow> char" where
  "b64_char n = b64_alphabet ! n"

fun base64 :: "byte list \<Rightarrow> string" where
  "base64 [] = []"
| "base64 [a] =
     [b64_char (unat a div 4), b64_char ((unat a mod 4) * 16), CHR ''='', CHR ''='']"
| "base64 [a, b] =
     [b64_char (unat a div 4), b64_char ((unat a mod 4) * 16 + unat b div 16),
      b64_char ((unat b mod 16) * 4), CHR ''='']"
| "base64 (a # b # c # rest) =
     [b64_char (unat a div 4), b64_char ((unat a mod 4) * 16 + unat b div 16),
      b64_char ((unat b mod 16) * 4 + unat c div 64), b64_char (unat c mod 64)]
     @ base64 rest"

text \<open>
  \<open>crypto.createHash('md5').update(data).digest('hex')\<close>: MD5 as RFC 1321 defines it,
  over the bytes of the string, as lower-case hex.
\<close>

type_synonym u32 = "32 word"

definition md5_K :: "u32 list" where
  "md5_K =
     [3614090360, 3905402710, 606105819, 3250441966,
      4118548399, 1200080426, 2821735955, 4249261313,
      1770035416, 2336552879, 4294925233, 2304563134,
      1804603682, 4254626195, 2792965006, 1236535329,
      4129170786, 3225465664, 643717713, 3921069994,
      3593408605, 38016083, 3634488961, 3889429448,
      568446438, 3275163606, 4107603335, 1163531501,
      2850285829, 4243563512, 1735328473, 2368359562,
      4294588738, 2272392833, 1839030562, 4259657740,
      2763975236, 1272893353, 4139469664, 3200236656,
      681279174, 3936430074, 3572445317, 76029189,
      3654602809, 3873151461, 530742520, 3299628645,
      4096336452, 1126891415, 2878612391, 4237533241,
      1700485571, 2399980690, 4293915773, 2240044497,
      1873313359, 4264355552, 2734768916, 1309151649,
      4149444226, 3174756917, 718787259, 3951481745]"

definition md5_s :: "nat list" where
  "md5_s =
     [7, 12, 17, 22, 7, 12, 17, 22, 7, 12, 17, 22, 7, 12, 17, 22,
      5, 9, 14, 20, 5, 9, 14, 20, 5, 9, 14, 20, 5, 9, 14, 20,
      4, 11, 16, 23, 4, 11, 16, 23, 4, 11, 16, 23, 4, 11, 16, 23,
      6, 10, 15, 21, 6, 10, 15, 21, 6, 10, 15, 21, 6, 10, 15, 21]"

definition rotl32 :: "u32 \<Rightarrow> nat \<Rightarrow> u32" where
  "rotl32 x n = push_bit n x OR drop_bit (32 - n) x"

text \<open>One of the 64 operations on the state \<open>(a, b, c, d)\<close>, for the block \<open>m\<close>.\<close>

definition md5_round :: "u32 list \<Rightarrow> nat \<Rightarrow> u32 \<times> u32 \<times> u32 \<times> u32 \<Rightarrow> u32 \<times> u32 \<times> u32 \<times> u32" where
  "md5_round m i st =
     (case st of (a, b, c, d) \<Rightarrow>
        let f = (if i < 16 then (b AND c) OR (NOT b AND d)
                 else if i < 32 then (d AND b) OR (NOT d AND c)
                 else if i < 48 then b XOR c XOR d
                 else c XOR (b OR NOT d));
            g = (if i < 16 then i
                 else if i < 32 then (5 * i + 1) mod 16
                 else if i < 48 then (3 * i + 5) mod 16
                 else (7 * i) mod 16);
            f' = f + a + md5_K ! i + m ! g
        in (d, b + rotl32 f' (md5_s ! i), b, c))"

text \<open>Little-endian words of a block, and little-endian bytes of a word.\<close>

definition le_word :: "byte list \<Rightarrow> u32" where
  "le_word bs = foldr (\<lambda>b w. push_bit 8 w OR ucast b) bs 0"

fun words_of :: "byte list \<Rightarrow> u32 list" where
  "words_of (a # b # c # d # rest) = le_word [a, b, c, d] # words_of rest"
| "words_of bs = []"

definition md5_block :: "u32 \<times> u32 \<times> u32 \<times> u32 \<Rightarrow> byte list \<Rightarrow> u32 \<times> u32 \<times> u32 \<times> u32" where
  "md5_block st block =
     (case st of (a0, b0, c0, d0) \<Rightarrow>
        case fold (md5_round (words_of block)) [0..<64] st of
          (a, b, c, d) \<Rightarrow> (a0 + a, b0 + b, c0 + c, d0 + d))"

fun md5_blocks :: "nat \<Rightarrow> u32 \<times> u32 \<times> u32 \<times> u32 \<Rightarrow> byte list \<Rightarrow> u32 \<times> u32 \<times> u32 \<times> u32" where
  "md5_blocks 0 st bs = st"
| "md5_blocks (Suc n) st bs = md5_blocks n (md5_block st (take 64 bs)) (drop 64 bs)"

definition le_bytes :: "nat \<Rightarrow> 'a::len word \<Rightarrow> byte list" where
  "le_bytes k w = map (\<lambda>i. ucast (drop_bit (8 * i) w)) [0..<k]"

text \<open>
  Padding: a one bit, zeros up to 56 modulo 64 bytes, and the length in bits as eight
  little-endian bytes.
\<close>

definition md5_pad :: "byte list \<Rightarrow> byte list" where
  "md5_pad bs =
     bs @ [128] @ replicate ((119 - length bs mod 64) mod 64) 0 @ le_bytes 8 (of_nat (8 * length bs) :: 64 word)"

definition hex_digit :: "nat \<Rightarrow> char" where
  "hex_digit n = ''0123456789abcdef'' ! n"

definition hex_byte :: "byte \<Rightarrow> string" where
  "hex_byte b = [hex_digit (unat b div 16), hex_digit (unat b mod 16)]"

definition md5 :: "byte list \<Rightarrow> byte list" where
  "md5 bs =
     (let p = md5_pad bs in
      case md5_blocks (length p div 64) (0x67452301, 0xefcdab89, 0x98badcfe, 0x10325476) p of
        (a, b, c, d) \<Rightarrow> concat (map (\<lambda>w. le_bytes 4 w) [a, b, c, d]))"

definition md5_hex :: "string \<Rightarrow> string" where
  "md5_hex s = concat (map hex_byte (md5 (map (\<lambda>c. of_nat (of_char c)) s)))"

section \<open>Certificates and the decoded container\<close>

text \<open>
  A certificate as node-forge hands it over. The fields stand for what the code reads
  from it: \<open>cert.subject.hash\<close>, \<open>cert.issuer.hash\<close>, the result of
  \<open>forge.pki.certificateToPem(cert)\<close>, and the lower-case hex SHA-256 digest of its DER
  encoding (\<open>md.digest().toHex()\<close>).
\<close>

record certificate =
  subject_hash :: string
  issuer_hash :: string
  certificateToPem :: string
  der_sha256_hex :: string

datatype private_key = PrivateKey "byte list"

text \<open>The object \<open>convertPfxToObject\<close> returns: \<open>{ certs: [], keys: [] }\<close>.\<close>

record pfx_out =
  pfx_certs :: "certificate list"
  pfx_keys :: "private_key list"

text \<open>An entry \<open>{ pem, subject, issuer }\<close> as \<open>dumpPfx\<close> builds it.\<close>

record cert_entry =
  pem :: string
  subject :: string
  issuer :: string

text \<open>
  The local variables of \<open>dumpPfx\<close> while it walks the certificates. \<open>leaf\<close> and
  \<open>root\<close> start as the empty object \<open>{}\<close> (\<open>None\<close>), \<open>fingerprint\<close> starts undefined.
\<close>

record scan =
  leaf :: "cert_entry option"
  root :: "cert_entry option"
  interObj :: "cert_entry list"
  fingerprint :: "string option"

text \<open>Reading a property of an object that may still be \<open>{}\<close>.\<close>

fun prop_of :: "('a \<Rightarrow> string) \<Rightarrow> 'a option \<Rightarrow> jsval" where
  "prop_of f None = Undefined"
| "prop_of f (Some x) = Str (f x)"

definition trim_pem :: "string \<Rightarrow> string" where
  "trim_pem p =
     replace ''-----END CERTIFICATE-----'' []
       (replace ''-----BEGIN CERTIFICATE-----'' [] p)"

definition entry_of :: "certificate \<Rightarrow> cert_entry" where
  "entry_of cert =
     \<lparr>pem = trim_pem (certificateToPem cert), subject = subject_hash cert,
      issuer = issuer_hash cert\<rparr>"

text \<open>The test \<open>cert.subject.hash == cert.issuer.hash\<close>.\<close>

definition self_signed :: "certificate \<Rightarrow> bool" where
  "self_signed cert = (subject_hash cert = issuer_hash cert)"

text \<open>The body of the loop over \<open>pfxobj.certs\<close>, at index \<open>i\<close>.\<close>

definition classify :: "nat \<Rightarrow> certificate \<Rightarrow> scan \<Rightarrow> scan" where
  "classify i cert s =
     (if i = 0 then s\<lparr>leaf := Some (entry_of cert)\<rparr>
      else if self_signed cert then
        s\<lparr>root := Some (entry_of cert),
          fingerprint := Some (toUpperCase (der_sha256_hex cert))\<rparr>
      else s\<lparr>interObj := interObj s @ [entry_of cert]\<rparr>)"

fun scan_certs :: "nat \<Rightarrow> certificate list \<Rightarrow> scan \<Rightarrow> scan" where
  "scan_certs i [] s = s"
| "scan_certs i (cert # rest) s = scan_certs (Suc i) rest (classify i cert s)"

definition empty_scan :: scan where
  "empty_scan = \<lparr>leaf = None, root = None, interObj = [], fingerprint = None\<rparr>"

definition sortCertificate :: "cert_entry \<Rightarrow> cert_entry option \<Rightarrow> bool" where
  "sortCertificate intermediate r =
     (if loose_eq (Str (issuer intermediate)) (prop_of subject r) then True else False)"

text \<open>The two loops that push intermediates onto \<open>certChain\<close>.\<close>

fun push_leaf_side :: "cert_entry list \<Rightarrow> cert_entry option \<Rightarrow> jsval list \<Rightarrow> jsval list" where
  "push_leaf_side [] r chain = chain"
| "push_leaf_side (c # cs) r chain =
     push_leaf_side cs r (if \<not> sortCertificate c r then chain @ [Str (pem c)] else chain)"

fun push_root_side :: "cert_entry list \<Rightarrow> cert_entry option \<Rightarrow> jsval list \<Rightarrow> jsval list" where
  "push_root_side [] r chain = chain"
| "push_root_side (c # cs) r chain =
     push_root_side cs r (if sortCertificate c r then chain @ [Str (pem c)] else chain)"

text \<open>\<open>provisioningCertificateObj\<close>: the chain and, until it is deleted, the key.\<close>

record cert_object =
  certChain :: "jsval list"
  privateKey :: "private_key option"

fun set_keys :: "private_key list \<Rightarrow> cert_object \<Rightarrow> cert_object" where
  "set_keys [] obj = obj"
| "set_keys (k # ks) obj = set_keys ks (obj\<lparr>privateKey := Some k\<rparr>)"

definition assemble :: "pfx_out \<Rightarrow> scan \<Rightarrow> cert_object" where
  "assemble pfxobj s =
     (let chain0 = [prop_of pem (leaf s)];
          chain1 = push_leaf_side (interObj s) (root s) chain0;
          chain2 = push_root_side (interObj s) (root s) chain1;
          chain3 = chain2 @ [prop_of pem (root s)]
      in set_keys (pfx_keys pfxobj) \<lparr>certChain = chain3, privateKey = None\<rparr>)"

section \<open>Connection state\<close>

record hash_entry =
  certificateHash :: jsval

record connection =
  profile :: jsval
  dnsSuffix :: jsval
  digestRealm :: jsval
  fwNonce :: "byte list option"
  certHashes :: "hash_entry list option"
  amtGuid :: jsval

text \<open>The loop over \<open>certHashes\<close>: the first entry that loosely equals the fingerprint.\<close>

fun hash_match :: "hash_entry list \<Rightarrow> jsval \<Rightarrow> bool" where
  "hash_match [] fp = False"
| "hash_match (h # hs) fp = (if loose_eq (certificateHash h) fp then True else hash_match hs fp)"

definition untrusted_text :: string where
  "untrusted_text = ''Provisioning Certificate doesn't match any trusted certificates from AMT''"

text \<open>
  \<open>dumpPfx\<close>. \<open>pfxobj\<close> is always an object with two arrays here, so the guards on it
  hold. Reading \<open>certHashes.length\<close> of a connection that has none recorded, or of a
  connection that does not exist, throws a TypeError.
\<close>

definition dumpPfx :: "(nat \<rightharpoonup> connection) \<Rightarrow> pfx_out \<Rightarrow> nat \<Rightarrow> exn + cert_object reply" where
  "dumpPfx conns pfxobj index =
     (let s = scan_certs 0 (pfx_certs pfxobj) empty_scan;
          provisioningCertificateObj = assemble pfxobj s
      in case conns index of
           None \<Rightarrow> Inl TypeError
         | Some c \<Rightarrow>
             (case certHashes c of
                None \<Rightarrow> Inl TypeError
              | Some hs \<Rightarrow>
                  if hash_match hs (case fingerprint s of None \<Rightarrow> Undefined | Some f \<Rightarrow> Str f)
                  then Inr (Ok provisioningCertificateObj)
                  else Inr (ErrorText untrusted_text)))"

section \<open>Configuration\<close>

text \<open>The entries of \<open>rcsConfig\<close> the engine reads.\<close>

record amt_domain =
  DomainSuffix :: string
  ProvisioningCert :: string
  ProvisioningCertPassword :: string

record amt_configuration =
  ProfileName :: string
  AMTPassword :: string
  ConfigurationScript :: jsval

record rcs_config =
  AMTDomains :: "amt_domain list"
  AMTConfigurations :: "amt_configuration list"

section \<open>The host: file system, node-forge and node's crypto\<close>

text \<open>
  What the module calls but does not define is a parameter of the model:
  \<^item> \<open>fs.existsSync\<close> (an exception in it is caught and counts as not found);
  \<^item> \<open>fs.readFileSync\<close>, \<open>None\<close> when it throws;
  \<^item> \<open>forge.asn1.fromDer\<close> followed by \<open>forge.pkcs12.pkcs12FromAsn1\<close> and the two
    \<open>getBags\<close> calls: the first may throw outside any \<open>try\<close>, the second inside one;
  \<^item> \<open>crypto.createSign('sha256')\<close> with the key's PEM, as raw signature bytes, \<open>None\<close>
    when signing throws;
  \<^item> the bytes \<open>crypto.randomBytes\<close> draws, by position;
  \<^item> \<open>JSON.parse\<close>, \<open>None\<close> when it throws, and \<open>Buffer.from(s, 'base64')\<close>;
  \<^item> the UTF-8 decoding \<open>readFileSync(path, 'utf8')\<close> applies to the bytes of a file.
\<close>

text \<open>
  An inbound message once it is an object: the properties the handler reads. What
  \<open>JSON.parse\<close> returns is such an object, \<open>null\<close>, or a value that has none of
  these properties (a number, a string, a boolean, an array).
\<close>

record msg_object =
  msg_action :: jsval
  msg_profile :: jsval
  msg_fqdn :: jsval
  msg_realm :: jsval
  msg_nonce :: jsval
  msg_hashes :: "hash_entry list option"
  msg_uuid :: jsval
  msg_data :: jsval

datatype parsed = JObject msg_object | JNull | JOther

datatype pkcs12_result = MalformedDer | DecryptFailed | Decoded pfx_out

record host =
  existsSync :: "string \<Rightarrow> bool"
  readFileSync :: "string \<Rightarrow> byte list option"
  pkcs12FromDer :: "byte list \<Rightarrow> string \<Rightarrow> pkcs12_result"
  sign_sha256 :: "private_key \<Rightarrow> byte list \<Rightarrow> byte list option"
  randomBytes :: "nat \<Rightarrow> byte"
  JSON_parse :: "string \<Rightarrow> parsed option"
  base64_decode :: "string \<Rightarrow> byte list"
  utf8_decode :: "byte list \<Rightarrow> string"

text \<open>
  What a call does besides returning: lines written with \<open>obj.output\<close> and the file
  system calls it makes, in order.
\<close>

datatype event = Output string | ExistsSync string | ReadFileSync string

section \<open>convertPfxToObject and getProvisioningCertObj\<close>

definition decrypt_failed_text :: string where
  "decrypt_failed_text = ''Decrypting provisining certificate failed.''"

definition convertPfxToObject :: "host \<Rightarrow> string \<Rightarrow> string \<Rightarrow> (exn + pfx_out reply) \<times> event list" where
  "convertPfxToObject h pfxpath passphrase =
     (case readFileSync h pfxpath of
        None \<Rightarrow> (Inl IOError, [ReadFileSync pfxpath])
      | Some pfxbuf \<Rightarrow>
          (case pkcs12FromDer h pfxbuf passphrase of
             MalformedDer \<Rightarrow> (Inl ParseError, [ReadFileSync pfxpath])
           | DecryptFailed \<Rightarrow> (Inr (ErrorText decrypt_failed_text), [ReadFileSync pfxpath])
           | Decoded pfx_out \<Rightarrow> (Inr (Ok pfx_out), [ReadFileSync pfxpath])))"

text \<open>The loop over \<open>AMTDomains\<close>: the first entry whose suffix equals the domain.\<close>

fun find_domain :: "amt_domain list \<Rightarrow> jsval \<Rightarrow> amt_domain option" where
  "find_domain [] domain = None"
| "find_domain (d # ds) domain =
     (if loose_eq (Str (DomainSuffix d)) domain then Some d else find_domain ds domain)"

definition domain_missing_text :: string where
  "domain_missing_text = ''AMT domain suffix not specified.''"

definition domain_mismatch_text :: string where
  "domain_mismatch_text =
     ''Specified AMT domain suffix does not match list of available AMT domain suffixes.''"

definition cert_not_found_text :: string where
  "cert_not_found_text = ''AMT Provisioning Certificate not found on server''"

definition getProvisioningCertObj ::
  "host \<Rightarrow> rcs_config \<Rightarrow> (nat \<rightharpoonup> connection) \<Rightarrow> jsval \<Rightarrow> nat \<Rightarrow> (exn + cert_object reply) \<times> event list" where
  "getProvisioningCertObj h config conns domain index =
     (if loose_eq domain Null \<or> loose_eq domain (Str []) then
        (Inr (ErrorText domain_missing_text), [])
      else
        case find_domain (AMTDomains config) domain of
          None \<Rightarrow> (Inr (ErrorText domain_mismatch_text), [Output domain_mismatch_text])
        | Some d \<Rightarrow>
            (let cert = ProvisioningCert d; certpass = ProvisioningCertPassword d in
             if \<not> existsSync h cert then
               (Inr (ErrorText cert_not_found_text), [ExistsSync cert])
             else
               case convertPfxToObject h cert certpass of
                 (Inl e, ev) \<Rightarrow> (Inl e, ExistsSync cert # ev)
               | (Inr (ErrorText t), ev) \<Rightarrow> (Inr (ErrorText t), ExistsSync cert # ev)
               | (Inr (Ok pfxobj), ev) \<Rightarrow> (dumpPfx conns pfxobj index, ExistsSync cert # ev)))"

section \<open>Nonce and signature\<close>

text \<open>
  \<open>generateNonce\<close>: \<open>Buffer.from(buffer, 0, 20)\<close> copies the whole buffer it is given,
  which is the 20 bytes \<open>crypto.randomBytes(20)\<close> returned.
\<close>

definition generateNonce :: "host \<Rightarrow> byte list" where
  "generateNonce h = map (randomBytes h) [0..<20]"

definition signature_failed_text :: string where
  "signature_failed_text = ''Unable to create Digital Signature''"

text \<open>
  \<open>signString\<close>: everything is inside its \<open>try\<close>. With no key (\<open>undefined\<close>),
  \<open>forge.pki.privateKeyToPem\<close> throws, which is caught like a failure of the signer.
\<close>

definition signString :: "host \<Rightarrow> byte list \<Rightarrow> private_key option \<Rightarrow> string reply" where
  "signString h message key =
     (case key of
        None \<Rightarrow> ErrorText signature_failed_text
      | Some k \<Rightarrow>
          (case sign_sha256 h k message of
             None \<Rightarrow> ErrorText signature_failed_text
           | Some sig \<Rightarrow> Ok (base64 sig)))"

section \<open>remoteConfiguration\<close>

text \<open>\<open>rcsObj\<close> as it is returned on success.\<close>

record rcs_object =
  action :: string
  certs :: cert_object
  nonce :: string
  signature :: string
  password :: string
  profileScript :: jsval

definition connection_missing_text :: string where
  "connection_missing_text = ''WebSocket connection not found in list of connected clients.''"

definition profile_mismatch_text :: string where
  "profile_mismatch_text =
     ''Specified AMT profile name does not match list of available AMT profiles.''"

text \<open>The loop over \<open>AMTConfigurations\<close>: the first entry whose name equals the profile.\<close>

fun find_profile :: "amt_configuration list \<Rightarrow> jsval \<Rightarrow> amt_configuration option" where
  "find_profile [] p = None"
| "find_profile (x # xs) p =
     (if loose_eq (Str (ProfileName x)) p then Some x else find_profile xs p)"

text \<open>
  Lines 150 to 167: the AMT password of the connection's profile.
  \<open>AMTConfigurations[0].AMTPassword\<close> throws a TypeError on an empty list.
\<close>

definition resolve_password :: "rcs_config \<Rightarrow> connection \<Rightarrow> (exn + string reply) \<times> event list" where
  "resolve_password config c =
     (if \<not> truthy (profile c) \<or> loose_eq (profile c) (Str []) \<or> loose_eq (profile c) Null then
        (case AMTConfigurations config of
           [] \<Rightarrow> (Inl TypeError, [])
         | x # xs \<Rightarrow> (Inr (Ok (AMTPassword x)), []))
      else
        case find_profile (AMTConfigurations config) (profile c) of
          None \<Rightarrow> (Inr (ErrorText profile_mismatch_text), [Output profile_mismatch_text])
        | Some x \<Rightarrow> (Inr (Ok (AMTPassword x)), []))"

text \<open>
  Lines 170 to 174: the configuration script of \<open>AMTConfigurations[cindex]\<close>, the entry
  at the connection's index. Past the end of the list that entry is \<open>undefined\<close> and
  reading its \<open>ConfigurationScript\<close> throws a TypeError outside the \<open>try\<close>. A path that
  is \<open>undefined\<close> passes both comparisons, and \<open>readFileSync\<close> then throws inside it.
\<close>

definition read_script :: "host \<Rightarrow> rcs_config \<Rightarrow> nat \<Rightarrow> (exn + jsval) \<times> event list" where
  "read_script h config cindex =
     (if cindex < length (AMTConfigurations config) then
        (let path = ConfigurationScript (AMTConfigurations config ! cindex) in
         if path \<noteq> Null \<and> path \<noteq> Str [] then
           (case path of
              Str f \<Rightarrow>
                (case readFileSync h f of
                   Some bs \<Rightarrow> (Inr (Str (utf8_decode h bs)), [ReadFileSync f])
                 | None \<Rightarrow> (Inr Null, [ReadFileSync f]))
            | Undefined \<Rightarrow> (Inr Null, [])
            | Null \<Rightarrow> (Inr Null, []))
         else (Inr Null, []))
      else (Inl TypeError, []))"

text \<open>
  Lines 137 to 148: the key is taken out of the certificate object and deleted from it,
  the nonce is drawn, and the two nonces are signed. \<open>Buffer.concat\<close> throws a TypeError
  when the firmware nonce is \<open>undefined\<close>.
\<close>

definition sign_nonces ::
  "host \<Rightarrow> byte list option \<Rightarrow> cert_object \<Rightarrow> exn + (cert_object \<times> string \<times> string) reply" where
  "sign_nonces h fw certobj =
     (let key = privateKey certobj;
          stripped = certobj\<lparr>privateKey := None\<rparr>;
          n = generateNonce h
      in case fw of
           None \<Rightarrow> Inl TypeError
         | Some f \<Rightarrow>
             (case signString h (f @ n) key of
                ErrorText t \<Rightarrow> Inr (ErrorText t)
              | Ok sig \<Rightarrow> Inr (Ok (stripped, base64 n, sig))))"

text \<open>Lines 150 to 175, once the certificate object, the nonce and the signature are there.\<close>

definition finish_configuration ::
  "host \<Rightarrow> rcs_config \<Rightarrow> connection \<Rightarrow> nat \<Rightarrow> cert_object \<times> string \<times> string
     \<Rightarrow> (exn + rcs_object reply) \<times> event list" where
  "finish_configuration h config c cindex triple =
     (case resolve_password config c of
        (Inl e, ev) \<Rightarrow> (Inl e, ev)
      | (Inr (ErrorText t), ev) \<Rightarrow> (Inr (ErrorText t), ev)
      | (Inr (Ok amtPassword), ev) \<Rightarrow>
          (let data_str = ''admin:'' @ to_string (digestRealm c) @ '':'' @ amtPassword in
           case read_script h config cindex of
             (Inl e, ev') \<Rightarrow> (Inl e, ev @ ev')
           | (Inr script, ev') \<Rightarrow>
               (Inr (Ok \<lparr>action = ''acmactivate'', certs = fst triple,
                         nonce = fst (snd triple), signature = snd (snd triple),
                         password = md5_hex data_str, profileScript = script\<rparr>),
                ev @ ev')))"

definition remoteConfiguration ::
  "host \<Rightarrow> rcs_config \<Rightarrow> (nat \<rightharpoonup> connection) \<Rightarrow> byte list option \<Rightarrow> nat
     \<Rightarrow> (exn + rcs_object reply) \<times> event list" where
  "remoteConfiguration h config conns fw cindex =
     (case conns cindex of
        None \<Rightarrow> (Inr (ErrorText connection_missing_text), [])
      | Some c \<Rightarrow>
          (let dns = (if truthy (dnsSuffix c) then dnsSuffix c else Null) in
           case getProvisioningCertObj h config conns dns cindex of
             (Inl e, ev) \<Rightarrow> (Inl e, ev)
           | (Inr (ErrorText t), ev) \<Rightarrow> (Inr (ErrorText t), ev)
           | (Inr (Ok certobj), ev) \<Rightarrow>
               (case sign_nonces h fw certobj of
                  Inl e \<Rightarrow> (Inl e, ev)
                | Inr (ErrorText t) \<Rightarrow> (Inr (ErrorText t), ev)
                | Inr (Ok triple) \<Rightarrow>
                    (case finish_configuration h config c cindex triple of
                       (r, ev') \<Rightarrow> (r, ev @ ev')))))"

section \<open>The dispatcher\<close>

text \<open>
  The message \<open>wsServer.sendMessage\<close> is handed: the object with \<open>version\<close> and
  \<open>status\<close> set on it.
\<close>

record envelope =
  body :: "rcs_object reply"
  version :: nat
  status :: jsval

text \<open>
  The service object and what surrounds it: the connection table \<open>obj.connection\<close>,
  whether \<open>obj.wsServer\<close> is set, the properties of the global object (the module
  declares neither \<open>status\<close> nor \<open>sendMessage\<close>, so both names resolve there or not at
  all), the lines written and the messages handed to the transport. The optional
  \<open>logger\<close> and \<open>db\<close> callbacks are not set.
\<close>

record rcs =
  connection :: "nat \<rightharpoonup> connection"
  wsServer :: bool
  globals :: "string \<rightharpoonup> jsval"
  console :: "event list"
  sent :: "(nat \<times> envelope) list"

definition obj_output :: "string \<Rightarrow> rcs \<Rightarrow> rcs" where
  "obj_output msg st = st\<lparr>console := console st @ [Output msg]\<rparr>"

definition RCSMessageProtocolVersion :: nat where
  "RCSMessageProtocolVersion = 1"

text \<open>
  \<open>obj.sendMessage\<close>. The file is in strict mode: reading the undeclared \<open>status\<close>
  throws a ReferenceError unless the global object has such a property. Calling
  \<open>sendMessage\<close> on a server that is not set throws a TypeError.
\<close>

definition sendMessage :: "rcs \<Rightarrow> nat \<Rightarrow> rcs_object reply \<Rightarrow> exn option \<times> rcs" where
  "sendMessage st index message =
     (let st1 = (if \<not> wsServer st then obj_output ''WebSocket Server not initialized.'' st else st)
      in case globals st1 ''status'' of
           None \<Rightarrow> (Some (ReferenceError ''status''), st1)
         | Some v \<Rightarrow>
             (let st2 = (if loose_eq v Null
                         then st1\<lparr>globals := (globals st1)(''status'' \<mapsto> Str ''ok'')\<rparr>
                         else st1);
                  v2 = (if loose_eq v Null then Str ''ok'' else v)
              in if \<not> wsServer st2 then (Some TypeError, st2)
                 else (None, st2\<lparr>sent := sent st2 @
                         [(index, \<lparr>body = message, version = RCSMessageProtocolVersion,
                                   status = v2\<rparr>)]\<rparr>)))"

text \<open>
  The call \<open>sendMessage(index, rcsObj)\<close> of line 96, without \<open>obj.\<close>: the name is not
  declared in the module, so it throws a ReferenceError; a global property of that name
  would hold a value of this model, which is not a function.
\<close>

definition bare_sendMessage :: "rcs \<Rightarrow> exn" where
  "bare_sendMessage st =
     (case globals st ''sendMessage'' of
        None \<Rightarrow> ReferenceError ''sendMessage''
      | Some v \<Rightarrow> TypeError)"

text \<open>The inbound message: a string, a buffer or an object.\<close>

datatype message = Text string | Binary "byte list" | Structured msg_object

definition no_properties :: msg_object where
  "no_properties =
     \<lparr>msg_action = Undefined, msg_profile = Undefined, msg_fqdn = Undefined,
      msg_realm = Undefined, msg_nonce = Undefined, msg_hashes = None,
      msg_uuid = Undefined, msg_data = Undefined\<rparr>"

definition new_connection :: connection where
  "new_connection =
     \<lparr>profile = Undefined, dnsSuffix = Undefined, digestRealm = Undefined,
      fwNonce = None, certHashes = None, amtGuid = Undefined\<rparr>"

text \<open>Decimal digits of a connection index, as \<open>+\<close> writes a number into a string.\<close>

fun decimal :: "nat \<Rightarrow> string" where
  "decimal n =
     (if n < 10 then [char_of (48 + n)] else decimal (n div 10) @ [char_of (48 + n mod 10)])"

text \<open>Lines 88 to 93: the fields of the message that are set are merged into the state.\<close>

definition merge_fields :: "host \<Rightarrow> msg_object \<Rightarrow> connection \<Rightarrow> connection" where
  "merge_fields h m c =
     (let c1 = (if truthy (msg_profile m) then c\<lparr>profile := msg_profile m\<rparr> else c);
          c2 = (if truthy (msg_fqdn m) then c1\<lparr>dnsSuffix := msg_fqdn m\<rparr> else c1);
          c3 = (if truthy (msg_realm m) then c2\<lparr>digestRealm := msg_realm m\<rparr> else c2);
          c4 = (if truthy (msg_nonce m)
                then c3\<lparr>fwNonce := Some (base64_decode h (to_string (msg_nonce m)))\<rparr> else c3);
          c5 = (case msg_hashes m of None \<Rightarrow> c4 | Some hs \<Rightarrow> c4\<lparr>certHashes := Some hs\<rparr>);
          c6 = (if truthy (msg_uuid m) then c5\<lparr>amtGuid := msg_uuid m\<rparr> else c5)
      in c6)"

text \<open>The \<open>acmactivate\<close> case of the switch.\<close>

definition acmactivate :: "host \<Rightarrow> rcs_config \<Rightarrow> rcs \<Rightarrow> msg_object \<Rightarrow> nat \<Rightarrow> exn option \<times> rcs" where
  "acmactivate h config st m index =
     (case connection st index of
        None \<Rightarrow> (Some TypeError, st)
      | Some c \<Rightarrow>
          (let c' = merge_fields h m c;
               st1 = st\<lparr>connection := (connection st)(index \<mapsto> c')\<rparr>
           in case remoteConfiguration h config (connection st1) (fwNonce c') index of
                (Inl e, ev) \<Rightarrow> (Some e, st1\<lparr>console := console st1 @ ev\<rparr>)
              | (Inr rcsObj, ev) \<Rightarrow>
                  (let st2 = st1\<lparr>console := console st1 @ ev\<rparr>
                   in case rcsObj of
                        ErrorText t \<Rightarrow>
                          if t \<noteq> [] then (Some (bare_sendMessage st2), obj_output t st2)
                          else sendMessage st2 index rcsObj
                      | Ok obj \<Rightarrow> sendMessage st2 index rcsObj)))"

definition quoted_error :: string where
  "quoted_error = '' received '' @ [char_of (34 :: nat)] @ ''error'' @ [char_of (34 :: nat)] @ '' message: ''"

text \<open>The switch on the event, for a message whose properties are \<open>m\<close>.\<close>

definition dispatch :: "host \<Rightarrow> rcs_config \<Rightarrow> rcs \<Rightarrow> jsval \<Rightarrow> msg_object \<Rightarrow> nat \<Rightarrow> exn option \<times> rcs" where
  "dispatch h config st ev m index =
     (if ev = Str ''acmactivate'' then acmactivate h config st m index
      else if ev = Str ''error'' then
        (None, obj_output (''AMT Device '' @ decimal index @ quoted_error @ to_string (msg_data m)) st)
      else if ev = Str ''close'' then
        (None, (obj_output (to_string (msg_data m)) st)\<lparr>connection := (connection st)(index := None)\<rparr>)
      else if ev = Str ''finish'' then
        (None, obj_output (''AMT Configuration of device '' @ decimal index @ '' '' @ to_string (msg_data m)) st)
      else
        (None, obj_output (''Detected a new websocket message type (need to handle this): '' @ to_string ev) st))"

definition invalid_message_text :: string where
  "invalid_message_text = ''Invalid message from client''"

text \<open>
  \<open>obj.wsConnectionHandler\<close>. A string is parsed; when \<open>JSON.parse\<close> throws, the
  \<open>catch\<close> block sends the error and the handler goes on with the string, which has no
  \<open>action\<close>. A parsed \<open>null\<close> has no properties to read: \<open>message.action\<close> throws.
\<close>

definition wsConnectionHandler ::
  "host \<Rightarrow> rcs_config \<Rightarrow> rcs \<Rightarrow> string \<Rightarrow> message \<Rightarrow> nat \<Rightarrow> exn option \<times> rcs" where
  "wsConnectionHandler h config st ev message index =
     (let st0 = (case connection st index of
                   None \<Rightarrow> st\<lparr>connection := (connection st)(index \<mapsto> new_connection)\<rparr>
                 | Some c \<Rightarrow> st)
      in case message of
           Text s \<Rightarrow>
             (case JSON_parse h s of
                None \<Rightarrow>
                  (case sendMessage (obj_output invalid_message_text st0) index
                          (ErrorText invalid_message_text) of
                     (Some e, st1) \<Rightarrow> (Some e, st1)
                   | (None, st1) \<Rightarrow> dispatch h config st1 (Str ev) no_properties index)
              | Some JNull \<Rightarrow> (Some TypeError, st0)
              | Some JOther \<Rightarrow> dispatch h config st0 (Str ev) no_properties index
              | Some (JObject m) \<Rightarrow>
                  dispatch h config st0 (if truthy (msg_action m) then msg_action m else Str ev)
                    m index)
         | Binary b \<Rightarrow> dispatch h config st0 (Str ev) no_properties index
         | Structured m \<Rightarrow> dispatch h config st0 (Str ev) m index)"

text \<open>
  Every entry the scan holds was made by \<open>entry_of\<close> from a certificate of the set
  \<open>A\<close>: the invariant of the loop over \<open>pfxobj.certs\<close>.
\<close>

definition entries_within :: "certificate set \<Rightarrow> scan \<Rightarrow> bool" where
  "entries_within A s =
     ((\<forall>e. leaf s = Some e \<longrightarrow> e \<in> entry_of ` A) \<and>
      (\<forall>e. root s = Some e \<longrightarrow> e \<in> entry_of ` A) \<and>
      set (interObj s) \<subseteq> entry_of ` A)"

text \<open>Every error text the engine can return.\<close>

definition error_texts :: "string list" where
  "error_texts =
     [connection_missing_text, domain_missing_text, domain_mismatch_text,
      cert_not_found_text, decrypt_failed_text, untrusted_text, signature_failed_text,
      profile_mismatch_text]"

section \<open>The trust check as the specification words it\<close>

text \<open>
  Membership of the upper-case fingerprint in the device's hashes after these have been
  put in upper case too: the test the specification describes, kept apart from the test
  \<open>hash_match\<close> that \<open>dumpPfx\<close> performs.
\<close>

definition normalized_member :: "string \<Rightarrow> string list \<Rightarrow> bool" where
  "normalized_member F H = (toUpperCase F \<in> set (map toUpperCase H))"

section \<open>A provisioning scenario\<close>

text \<open>
  One domain, one profile, and a container of four certificates stored in the order
  leaf, second intermediate, root, first intermediate. The leaf is issued by the first
  intermediate, which is issued by the second, which is issued by the root.
\<close>

definition crlf :: string where
  "crlf = [char_of (13 :: nat), char_of (10 :: nat)]"

definition pem_text :: "string \<Rightarrow> string" where
  "pem_text b = ''-----BEGIN CERTIFICATE-----'' @ crlf @ b @ crlf @ ''-----END CERTIFICATE-----'' @ crlf"

definition leaf_cert :: certificate where
  "leaf_cert =
     \<lparr>subject_hash = ''938da9ca8aa6cf9c35119620815033a5cf9d1d7e'',
      issuer_hash = ''b6658a229fac783d981d08df86a976537fcc5138'',
      certificateToPem = pem_text ''Y2VydC1sZWFm'',
      der_sha256_hex = ''7b70e7491a903a4501b94ef01ee902979882aebb9c3acc114e0d14770e042a0f''\<rparr>"

definition inter1_cert :: certificate where
  "inter1_cert =
     \<lparr>subject_hash = ''b6658a229fac783d981d08df86a976537fcc5138'',
      issuer_hash = ''cca9a4f61f58e535cf3af90fb8c11cd252a45268'',
      certificateToPem = pem_text ''Y2VydC1pbnRlcjE='',
      der_sha256_hex = ''8b7a5301f1a77edf99c9c89eef3b46b2503ff951c5e52ee52368f18e39e3f1f7''\<rparr>"

definition inter2_cert :: certificate where
  "inter2_cert =
     \<lparr>subject_hash = ''cca9a4f61f58e535cf3af90fb8c11cd252a45268'',
      issuer_hash = ''018250ca0e6b69a31e08a9422ca68af3057165e8'',
      certificateToPem = pem_text ''Y2VydC1pbnRlcjI='',
      der_sha256_hex = ''fd13b719adf1b208e690854e8969206ef4a4c5b414513cccf0f7d4d0229687d7''\<rparr>"

definition root_cert :: certificate where
  "root_cert =
     \<lparr>subject_hash = ''018250ca0e6b69a31e08a9422ca68af3057165e8'',
      issuer_hash = ''018250ca0e6b69a31e08a9422ca68af3057165e8'',
      certificateToPem = pem_text ''Y2VydC1yb290'',
      der_sha256_hex = ''05bb77aacdff5e6dabeaa8613666da574710b45a4885cd3f45e008156471e391''\<rparr>"

definition demo_key :: private_key where
  "demo_key = PrivateKey [48, 130, 4, 164, 2, 1, 0]"

definition demo_pfx :: pfx_out where
  "demo_pfx =
     \<lparr>pfx_certs = [leaf_cert, inter2_cert, root_cert, inter1_cert], pfx_keys = [demo_key]\<rparr>"

text \<open>The same container without its root, and without its key.\<close>

definition rootless_pfx :: pfx_out where
  "rootless_pfx = \<lparr>pfx_certs = [leaf_cert, inter1_cert], pfx_keys = [demo_key]\<rparr>"

definition keyless_pfx :: pfx_out where
  "keyless_pfx = demo_pfx\<lparr>pfx_keys := []\<rparr>"

definition root_fingerprint :: string where
  "root_fingerprint = ''05BB77AACDFF5E6DABEAA8613666DA574710B45A4885CD3F45E008156471E391''"

definition other_fingerprint :: string where
  "other_fingerprint = ''7B70E7491A903A4501B94EF01EE902979882AEBB9C3ACC114E0D14770E042A0F''"

definition demo_fwNonce :: "byte list" where
  "demo_fwNonce = [1, 2, 3, 4, 5, 6, 7, 8, 9, 10, 11, 12, 13, 14, 15, 16, 17, 18, 19, 20]"

text \<open>A connection that has sent everything but a profile name, with the given hashes.\<close>

definition demo_connection :: "hash_entry list \<Rightarrow> connection" where
  "demo_connection hs =
     \<lparr>profile = Undefined, dnsSuffix = Str ''vprodemo.com'',
      digestRealm = Str ''Digest:A4070000000000000000000000000000'',
      fwNonce = Some demo_fwNonce, certHashes = Some hs,
      amtGuid = Str ''4c4c4544-0046-4410-8031-c7c04f4e5a32''\<rparr>"

definition trusted_hashes :: "hash_entry list" where
  "trusted_hashes =
     [\<lparr>certificateHash = Str other_fingerprint\<rparr>, \<lparr>certificateHash = Str root_fingerprint\<rparr>]"

definition demo_config :: rcs_config where
  "demo_config =
     \<lparr>AMTDomains =
        [\<lparr>DomainSuffix = ''vprodemo.com'', ProvisioningCert = ''./private/vprodemo.pfx'',
          ProvisioningCertPassword = ''P@ssw0rd''\<rparr>],
      AMTConfigurations =
        [\<lparr>ProfileName = ''default'', AMTPassword = ''pw1'', ConfigurationScript = Null\<rparr>]\<rparr>"

text \<open>The same domain with a second profile, which has a configuration script.\<close>

definition kiosk_config :: rcs_config where
  "kiosk_config =
     demo_config\<lparr>AMTConfigurations :=
       [\<lparr>ProfileName = ''default'', AMTPassword = ''pw1'', ConfigurationScript = Null\<rparr>,
        \<lparr>ProfileName = ''kiosk'', AMTPassword = ''pw2'',
          ConfigurationScript = Str ''./scripts/kiosk.mescript''\<rparr>]\<rparr>"

text \<open>
  A host whose files are the container, which decodes to the given object under the
  configured passphrase, and the script of the second profile. The signer is a
  stand-in (it reverses the message); the random source and the parser are fixed;
  the decoder reads each byte as one character, which is UTF-8 on the ASCII script.
\<close>

definition demo_host :: "pfx_out \<Rightarrow> host" where
  "demo_host pfx =
     \<lparr>existsSync = (\<lambda>f. f = ''./private/vprodemo.pfx''),
      readFileSync = (\<lambda>f. if f = ''./private/vprodemo.pfx'' then Some [48, 130, 10, 57]
                           else if f = ''./scripts/kiosk.mescript'' then Some [35, 49]
                           else None),
      pkcs12FromDer = (\<lambda>der pass. if pass = ''P@ssw0rd'' then Decoded pfx else DecryptFailed),
      sign_sha256 = (\<lambda>k m. Some (rev m)),
      randomBytes = (\<lambda>i. of_nat (17 * i + 5)),
      JSON_parse = (\<lambda>s. if s = ''{}'' then Some (JObject no_properties)
                         else if s = ''null'' then Some JNull else None),
      base64_decode = (\<lambda>s. demo_fwNonce),
      utf8_decode = map (\<lambda>b. char_of (unat b))\<rparr>"

text \<open>An \<open>acmactivate\<close> message that names a domain the configuration does not have.\<close>

definition unknown_domain_message :: msg_object where
  "unknown_domain_message =
     no_properties\<lparr>msg_action := Str ''acmactivate'', msg_fqdn := Str ''example.org''\<rparr>"

text \<open>
  The service right after \<open>CreateRcs\<close> and \<open>start\<close>: no connection yet, the transport
  set, and a global object with neither \<open>status\<close> nor \<open>sendMessage\<close>.
\<close>

definition fresh_rcs :: rcs where
  "fresh_rcs =
     \<lparr>connection = Map.empty, wsServer = True, globals = Map.empty, console = [], sent = []\<rparr>"

section \<open>MD5 on the test suite of RFC 1321\<close>

lemma md5_test_suite:
  "md5_hex [] = ''d41d8cd98f00b204e9800998ecf8427e''
   \<and> md5_hex ''abc'' = ''900150983cd24fb0d6963f7d28e17f72''
   \<and> md5_hex
        ''12345678901234567890123456789012345678901234567890123456789012345678901234567890''
       = ''57edf4a22be3c955ac49da2e2107b67a''"
  by code_simp

section \<open>The loops of dumpPfx\<close>

lemma push_leaf_side_eq:
  "push_leaf_side cs r chain =
     chain @ map (\<lambda>c. Str (pem c)) (filter (\<lambda>c. \<not> sortCertificate c r) cs)"
  by (induction cs arbitrary: chain) simp_all

lemma push_root_side_eq:
  "push_root_side cs r chain =
     chain @ map (\<lambda>c. Str (pem c)) (filter (\<lambda>c. sortCertificate c r) cs)"
  by (induction cs arbitrary: chain) simp_all

lemma scan_certs_Cons:
  "scan_certs 0 (c # rest) empty_scan =
     scan_certs (Suc 0) rest (empty_scan\<lparr>leaf := Some (entry_of c)\<rparr>)"
  by (simp add: classify_def)

lemma scan_certs_leaf: "leaf (scan_certs (Suc i) rest s) = leaf s"
  by (induction rest arbitrary: i s) (simp_all add: classify_def)

lemma scan_certs_interObj:
  "interObj (scan_certs (Suc i) rest s) =
     interObj s @ map entry_of (filter (\<lambda>c. \<not> self_signed c) rest)"
  by (induction rest arbitrary: i s) (simp_all add: classify_def)

lemma scan_certs_root:
  "root (scan_certs (Suc i) rest s) =
     (case filter self_signed rest of [] \<Rightarrow> root s | x # xs \<Rightarrow> Some (entry_of (last (x # xs))))"
proof (induction rest arbitrary: i s)
  case Nil
  then show ?case by simp
next
  case (Cons c rest)
  show ?case
    by (cases "filter self_signed rest") (simp_all add: Cons classify_def)
qed

lemma scan_certs_fingerprint:
  "fingerprint (scan_certs (Suc i) rest s) =
     (case filter self_signed rest of [] \<Rightarrow> fingerprint s
      | x # xs \<Rightarrow> Some (toUpperCase (der_sha256_hex (last (x # xs)))))"
proof (induction rest arbitrary: i s)
  case Nil
  then show ?case by simp
next
  case (Cons c rest)
  show ?case
    by (cases "filter self_signed rest") (simp_all add: Cons classify_def)
qed

lemma scan_certs_no_root:
  assumes "filter self_signed (tl cs) = []"
  shows "fingerprint (scan_certs 0 cs empty_scan) = None"
proof (cases cs)
  case Nil
  then show ?thesis by (simp add: empty_scan_def)
next
  case (Cons c rest)
  with assms have "filter self_signed rest = []" by simp
  then show ?thesis
    unfolding Cons scan_certs_Cons by (simp add: scan_certs_fingerprint empty_scan_def)
qed

lemma set_keys_certChain: "certChain (set_keys ks obj) = certChain obj"
  by (induction ks arbitrary: obj) simp_all

lemma set_keys_privateKey:
  "privateKey (set_keys ks obj) = (if ks = [] then privateKey obj else Some (last ks))"
  by (induction ks arbitrary: obj) simp_all

lemma sortCertificate_Some:
  "sortCertificate c (Some r) \<longleftrightarrow> issuer c = subject r"
  by (simp add: sortCertificate_def)

lemma assemble_certChain:
  "certChain (assemble pfxobj s) =
     [prop_of pem (leaf s)]
     @ map (\<lambda>c. Str (pem c)) (filter (\<lambda>c. \<not> sortCertificate c (root s)) (interObj s))
     @ map (\<lambda>c. Str (pem c)) (filter (\<lambda>c. sortCertificate c (root s)) (interObj s))
     @ [prop_of pem (root s)]"
  by (simp add: assemble_def Let_def set_keys_certChain push_leaf_side_eq push_root_side_eq)

lemma assemble_privateKey:
  "privateKey (assemble pfxobj s) =
     (if pfx_keys pfxobj = [] then None else Some (last (pfx_keys pfxobj)))"
  by (simp add: assemble_def Let_def set_keys_privateKey)

lemma classify_entries:
  "entries_within A s \<Longrightarrow> cert \<in> A \<Longrightarrow> entries_within A (classify i cert s)"
  by (auto simp: entries_within_def classify_def)

lemma scan_certs_entries:
  "entries_within A s \<Longrightarrow> set cs \<subseteq> A \<Longrightarrow> entries_within A (scan_certs i cs s)"
proof (induction cs arbitrary: i s)
  case Nil
  then show ?case by simp
next
  case (Cons c cs)
  from Cons.prems have "entries_within A (classify i c s)"
    by (intro classify_entries) simp_all
  moreover from Cons.prems have "set cs \<subseteq> A" by simp
  ultimately have "entries_within A (scan_certs (Suc i) cs (classify i c s))"
    by (rule Cons.IH)
  then show ?case by simp
qed

lemma certChain_elements:
  assumes x: "x \<in> set (certChain (assemble pfxobj (scan_certs 0 (pfx_certs pfxobj) empty_scan)))"
  shows "x = Undefined \<or>
         (\<exists>cert \<in> set (pfx_certs pfxobj). x = Str (trim_pem (certificateToPem cert)))"
proof -
  define s where "s = scan_certs 0 (pfx_certs pfxobj) empty_scan"
  define A where "A = set (pfx_certs pfxobj)"
  have "entries_within A empty_scan"
    by (simp add: entries_within_def empty_scan_def)
  then have inv: "entries_within A s"
    unfolding s_def by (rule scan_certs_entries) (simp add: A_def)
  have pem_of: "\<exists>cert \<in> A. pem e = trim_pem (certificateToPem cert)" if "e \<in> entry_of ` A" for e
    using that by (auto simp: entry_of_def)
  from x have "x \<in> set ([prop_of pem (leaf s)]
      @ map (\<lambda>c. Str (pem c)) (filter (\<lambda>c. \<not> sortCertificate c (root s)) (interObj s))
      @ map (\<lambda>c. Str (pem c)) (filter (\<lambda>c. sortCertificate c (root s)) (interObj s))
      @ [prop_of pem (root s)])"
    unfolding s_def assemble_certChain .
  then consider "x = prop_of pem (leaf s)" | "x = prop_of pem (root s)"
    | e where "e \<in> set (interObj s)" "x = Str (pem e)"
    by auto
  then have "x = Undefined \<or> (\<exists>cert \<in> A. x = Str (trim_pem (certificateToPem cert)))"
  proof cases
    case 1
    show ?thesis
    proof (cases "leaf s")
      case None
      with 1 show ?thesis by simp
    next
      case (Some e)
      with inv have "e \<in> entry_of ` A" by (simp add: entries_within_def)
      from pem_of [OF this] 1 Some show ?thesis by simp
    qed
  next
    case 2
    show ?thesis
    proof (cases "root s")
      case None
      with 2 show ?thesis by simp
    next
      case (Some e)
      with inv have "e \<in> entry_of ` A" by (simp add: entries_within_def)
      from pem_of [OF this] 2 Some show ?thesis by simp
    qed
  next
    case 3
    with inv have "e \<in> entry_of ` A" by (auto simp: entries_within_def)
    from pem_of [OF this] 3 show ?thesis by simp
  qed
  then show ?thesis by (simp add: A_def)
qed

lemma loose_eq_Str_iff: "loose_eq v (Str s) \<longleftrightarrow> v = Str s"
  by (cases v) simp_all

lemma loose_eq_Str_left_iff: "loose_eq (Str s) v \<longleftrightarrow> v = Str s"
  by (cases v) auto

lemma hash_match_iff: "hash_match hs fp \<longleftrightarrow> (\<exists>e \<in> set hs. loose_eq (certificateHash e) fp)"
  by (induction hs) simp_all

lemma hash_match_Undefined:
  "\<forall>e \<in> set H. \<exists>s. certificateHash e = Str s \<Longrightarrow> \<not> hash_match H Undefined"
  by (induction H) auto

lemma dumpPfx_OkD:
  "dumpPfx conns pfxobj index = Inr (Ok obj) \<Longrightarrow>
     obj = assemble pfxobj (scan_certs 0 (pfx_certs pfxobj) empty_scan)"
  by (auto simp: dumpPfx_def Let_def split: option.splits if_splits)

lemma dumpPfx_no_hashes:
  "conns index = Some c \<Longrightarrow> certHashes c = None \<Longrightarrow> dumpPfx conns pfxobj index = Inl TypeError"
  by (simp add: dumpPfx_def Let_def)

lemma dumpPfx_Ok_conn:
  "dumpPfx conns pfxobj index = Inr (Ok obj) \<Longrightarrow>
     \<exists>c H. conns index = Some c \<and> certHashes c = Some H \<and>
       hash_match H (case fingerprint (scan_certs 0 (pfx_certs pfxobj) empty_scan) of
                       None \<Rightarrow> Undefined | Some f \<Rightarrow> Str f)"
  by (auto simp: dumpPfx_def Let_def split: option.splits if_splits)

lemma upper_char_range:
  "(of_char (upper_char c) :: nat) < 97 \<or> 122 < (of_char (upper_char c) :: nat)"
  by (auto simp: upper_char_def Let_def)

lemma upper_char_not_lower: "upper_char c \<noteq> CHR ''e''"
proof
  assume "upper_char c = CHR ''e''"
  then have "(of_char (upper_char c) :: nat) = 101" by simp
  with upper_char_range [of c] show False by simp
qed

lemma untrusted_text_no_upper:
  assumes len: "length x = 64"
  shows "\<not> sublist (toUpperCase x) untrusted_text"
proof
  assume "sublist (toUpperCase x) untrusted_text"
  then obtain ps ss where split: "untrusted_text = ps @ toUpperCase x @ ss"
    by (auto simp: sublist_def)
  have total: "length untrusted_text = 72"
    by (simp add: untrusted_text_def)
  have "length ps + 64 + length ss = 72"
    using total len by (simp add: split toUpperCase_def)
  then have ps: "length ps \<le> 8" by simp
  have "untrusted_text ! 14 = CHR ''e''"
    by (simp add: untrusted_text_def)
  moreover have "untrusted_text ! 14 = toUpperCase x ! (14 - length ps)"
  proof -
    have "(ps @ toUpperCase x @ ss) ! 14 = (toUpperCase x @ ss) ! (14 - length ps)"
      using ps by (simp add: nth_append)
    also have "\<dots> = toUpperCase x ! (14 - length ps)"
    proof -
      have "14 - length ps < length (toUpperCase x)"
        using len by (simp add: toUpperCase_def)
      then show ?thesis by (simp only: nth_append if_True)
    qed
    finally show ?thesis by (simp add: split [symmetric])
  qed
  moreover have "toUpperCase x ! (14 - length ps) = upper_char (x ! (14 - length ps))"
    using ps len by (simp add: toUpperCase_def)
  ultimately show False
    using upper_char_not_lower by metis
qed

lemma demo_dumpPfx:
  "dumpPfx [0 \<mapsto> demo_connection trusted_hashes] demo_pfx 0 =
     Inr (Ok (assemble demo_pfx (scan_certs 0 (pfx_certs demo_pfx) empty_scan)))"
  by code_simp

lemma demo_trims:
  "trim_pem (pem_text ''Y2VydC1sZWFm'') = crlf @ ''Y2VydC1sZWFm'' @ crlf @ crlf"
  "trim_pem (pem_text ''Y2VydC1pbnRlcjE='') = crlf @ ''Y2VydC1pbnRlcjE='' @ crlf @ crlf"
  "trim_pem (pem_text ''Y2VydC1pbnRlcjI='') = crlf @ ''Y2VydC1pbnRlcjI='' @ crlf @ crlf"
  "trim_pem (pem_text ''Y2VydC1yb290'') = crlf @ ''Y2VydC1yb290'' @ crlf @ crlf"
  by (simp_all add: trim_pem_def pem_text_def crlf_def)

section \<open>The order of the certificate chain\<close>

text \<open>
  Claim C3. Whenever \<open>dumpPfx\<close> returns the certificate object for a container whose
  first certificate is the leaf and whose other certificates hold exactly one
  self-signed one, \<open>certChain\<close> is: the trimmed PEM of the leaf; then, in container
  order, the intermediates whose issuer hash differs from the root's subject hash; then
  those whose issuer hash equals it; then the trimmed PEM of the root. The container
  order of the certificates after the leaf is arbitrary, and so is the number of
  intermediates (at most two in the claim).
\<close>

theorem chain_order:
  assumes ok: "dumpPfx conns pfxobj index = Inr (Ok obj)"
    and certs: "pfx_certs pfxobj = leafc # rest"
    and one_root: "filter self_signed rest = [rootc]"
  shows "certChain obj =
     [Str (trim_pem (certificateToPem leafc))]
     @ map (\<lambda>c. Str (trim_pem (certificateToPem c)))
         (filter (\<lambda>c. \<not> self_signed c \<and> issuer_hash c \<noteq> subject_hash rootc) rest)
     @ map (\<lambda>c. Str (trim_pem (certificateToPem c)))
         (filter (\<lambda>c. \<not> self_signed c \<and> issuer_hash c = subject_hash rootc) rest)
     @ [Str (trim_pem (certificateToPem rootc))]"
proof -
  define s where "s = scan_certs 0 (pfx_certs pfxobj) empty_scan"
  have obj: "obj = assemble pfxobj s"
    using dumpPfx_OkD [OF ok] by (simp add: s_def)
  have s: "s = scan_certs (Suc 0) rest (empty_scan\<lparr>leaf := Some (entry_of leafc)\<rparr>)"
    unfolding s_def certs by (rule scan_certs_Cons)
  have l: "leaf s = Some (entry_of leafc)"
    by (simp add: s scan_certs_leaf)
  have r: "root s = Some (entry_of rootc)"
    by (simp add: s scan_certs_root one_root)
  have i: "interObj s = map entry_of (filter (\<lambda>c. \<not> self_signed c) rest)"
    by (simp add: s scan_certs_interObj empty_scan_def)
  show ?thesis
    by (simp add: obj assemble_certChain l r i sortCertificate_Some filter_map o_def entry_of_def)
qed

text \<open>
  In the scenario the container holds leaf, second intermediate, root, first
  intermediate; the chain comes out as leaf, first intermediate, second intermediate,
  root.
\<close>

theorem chain_order_witness:
  "\<exists>obj. dumpPfx [0 \<mapsto> demo_connection trusted_hashes] demo_pfx 0 = Inr (Ok obj) \<and>
     certChain obj =
       [Str (crlf @ ''Y2VydC1sZWFm'' @ crlf @ crlf),
        Str (crlf @ ''Y2VydC1pbnRlcjE='' @ crlf @ crlf),
        Str (crlf @ ''Y2VydC1pbnRlcjI='' @ crlf @ crlf),
        Str (crlf @ ''Y2VydC1yb290'' @ crlf @ crlf)]"
proof -
  have certs: "pfx_certs demo_pfx = leaf_cert # [inter2_cert, root_cert, inter1_cert]"
    by (simp add: demo_pfx_def)
  have one_root: "filter self_signed [inter2_cert, root_cert, inter1_cert] = [root_cert]"
    by (simp add: self_signed_def inter2_cert_def root_cert_def inter1_cert_def)
  from chain_order [OF demo_dumpPfx certs one_root] show ?thesis
    by (simp add: demo_dumpPfx demo_trims self_signed_def inter2_cert_def root_cert_def
        inter1_cert_def leaf_cert_def)
qed

section \<open>The trust check\<close>

text \<open>
  Claim C1, as the code has it. For a connection that has hashes \<open>H\<close> recorded and a
  container with a self-signed certificate after the leaf, let \<open>F\<close> be the upper-case
  hex SHA-256 fingerprint of the (last) self-signed certificate. \<open>dumpPfx\<close> returns the
  certificate object if and only if some entry of \<open>H\<close> has \<open>F\<close> itself as its
  \<open>certificateHash\<close>: the entries are compared as the device sent them, not put in
  upper case. Otherwise, and so whenever \<open>H\<close> is empty, it returns the fixed
  untrusted-certificate error text, of which a 64-character \<open>F\<close> is no part.
\<close>

theorem trust_check:
  assumes conn: "conns index = Some c"
    and hashes: "certHashes c = Some H"
    and certs: "pfx_certs pfxobj = leafc # rest"
    and roots: "filter self_signed rest \<noteq> []"
  shows "dumpPfx conns pfxobj index =
           (if \<exists>e \<in> set H. certificateHash e =
                 Str (toUpperCase (der_sha256_hex (last (filter self_signed rest))))
            then Inr (Ok (assemble pfxobj (scan_certs 0 (pfx_certs pfxobj) empty_scan)))
            else Inr (ErrorText
                   ''Provisioning Certificate doesn't match any trusted certificates from AMT''))
         \<and> (length (der_sha256_hex (last (filter self_signed rest))) = 64 \<longrightarrow>
              \<not> sublist (toUpperCase (der_sha256_hex (last (filter self_signed rest))))
                  ''Provisioning Certificate doesn't match any trusted certificates from AMT'')"
proof -
  obtain r rs where rr: "filter self_signed rest = r # rs"
    using roots by (cases "filter self_signed rest") auto
  have fp: "fingerprint (scan_certs 0 (pfx_certs pfxobj) empty_scan) =
      Some (toUpperCase (der_sha256_hex (last (filter self_signed rest))))"
    unfolding certs scan_certs_Cons by (simp add: scan_certs_fingerprint rr)
  have "dumpPfx conns pfxobj index =
           (if \<exists>e \<in> set H. certificateHash e =
                 Str (toUpperCase (der_sha256_hex (last (filter self_signed rest))))
            then Inr (Ok (assemble pfxobj (scan_certs 0 (pfx_certs pfxobj) empty_scan)))
            else Inr (ErrorText untrusted_text))"
    by (simp add: dumpPfx_def Let_def conn hashes fp hash_match_iff loose_eq_Str_iff)
  then show ?thesis
    using untrusted_text_no_upper by (simp add: untrusted_text_def)
qed

text \<open>
  The claim as stated fails where the device reports the root's hash in lower case: the
  fingerprint is a member of the normalized hashes, and \<open>dumpPfx\<close> still rejects it.
\<close>

theorem trust_check_counterexample:
  "normalized_member (der_sha256_hex root_cert)
      [''05bb77aacdff5e6dabeaa8613666da574710b45a4885cd3f45e008156471e391'']
   \<and> dumpPfx
        [0 \<mapsto> demo_connection
           [\<lparr>certificateHash =
               Str ''05bb77aacdff5e6dabeaa8613666da574710b45a4885cd3f45e008156471e391''\<rparr>]]
        demo_pfx 0
      = Inr (ErrorText
          ''Provisioning Certificate doesn't match any trusted certificates from AMT'')"
  by code_simp

text \<open>The scenario with its trusted hashes, and with none.\<close>

theorem trust_check_witness:
  "dumpPfx [0 \<mapsto> demo_connection trusted_hashes] demo_pfx 0 =
     Inr (Ok (assemble demo_pfx (scan_certs 0 (pfx_certs demo_pfx) empty_scan)))
   \<and> dumpPfx [0 \<mapsto> demo_connection []] demo_pfx 0 =
     Inr (ErrorText ''Provisioning Certificate doesn't match any trusted certificates from AMT'')
   \<and> \<not> sublist ''05BB77AACDFF5E6DABEAA8613666DA574710B45A4885CD3F45E008156471E391''
          ''Provisioning Certificate doesn't match any trusted certificates from AMT''"
proof -
  define rest where "rest = [inter2_cert, root_cert, inter1_cert]"
  have certs: "pfx_certs demo_pfx = leaf_cert # rest"
    by (simp add: demo_pfx_def rest_def)
  have roots: "filter self_signed rest = [root_cert]"
    by (simp add: rest_def self_signed_def inter2_cert_def root_cert_def inter1_cert_def)
  have roots': "filter self_signed rest \<noteq> []"
    unfolding roots by simp
  have fp: "toUpperCase (der_sha256_hex root_cert) =
      ''05BB77AACDFF5E6DABEAA8613666DA574710B45A4885CD3F45E008156471E391''"
    by code_simp
  have len: "length (der_sha256_hex root_cert) = 64"
    by (simp add: root_cert_def)
  have c1: "[0 \<mapsto> demo_connection trusted_hashes] 0 = Some (demo_connection trusted_hashes)"
    and c2: "[0 \<mapsto> demo_connection []] 0 = Some (demo_connection [])"
    by simp_all
  have h1: "certHashes (demo_connection trusted_hashes) = Some trusted_hashes"
    and h2: "certHashes (demo_connection []) = Some []"
    by (simp_all add: demo_connection_def)
  have mem: "\<exists>e \<in> set trusted_hashes. certificateHash e =
      Str ''05BB77AACDFF5E6DABEAA8613666DA574710B45A4885CD3F45E008156471E391''"
    by (simp add: trusted_hashes_def root_fingerprint_def)
  from trust_check [where conns = "[0 \<mapsto> demo_connection trusted_hashes]" and index = 0,
        OF c1 h1 certs roots']
    trust_check [where conns = "[0 \<mapsto> demo_connection []]" and index = 0,
        OF c2 h2 certs roots']
  show ?thesis
    using mem len by (simp add: roots fp)
qed

section \<open>What remoteConfiguration returns\<close>

lemma generateNonce_length: "length (generateNonce h) = 20"
  by (simp add: generateNonce_def)

lemma signString_OkD:
  "signString h m key = Ok sig \<Longrightarrow>
     \<exists>k raw. key = Some k \<and> sign_sha256 h k m = Some raw \<and> sig = base64 raw"
  by (auto simp: signString_def split: option.splits)

lemma sign_nonces_OkD:
  "sign_nonces h fw certobj = Inr (Ok t) \<Longrightarrow>
     \<exists>f sig. fw = Some f \<and> signString h (f @ generateNonce h) (privateKey certobj) = Ok sig \<and>
       t = (certobj\<lparr>privateKey := None\<rparr>, base64 (generateNonce h), sig)"
  by (auto simp: sign_nonces_def Let_def split: option.splits reply.splits)

lemma find_profile_None:
  "find_profile xs (Str name) = None \<longleftrightarrow> (\<forall>x \<in> set xs. ProfileName x \<noteq> name)"
  by (induction xs) auto

lemma find_domain_None:
  "find_domain ds (Str d) = None \<longleftrightarrow> (\<forall>x \<in> set ds. DomainSuffix x \<noteq> d)"
  by (induction ds) auto

lemma finish_configuration_OkD:
  "fst (finish_configuration h config c cindex t) = Inr (Ok p) \<Longrightarrow>
     \<exists>pw script. fst (resolve_password config c) = Inr (Ok pw) \<and>
       fst (read_script h config cindex) = Inr script \<and>
       p = \<lparr>action = ''acmactivate'', certs = fst t, nonce = fst (snd t),
            signature = snd (snd t),
            password = md5_hex (''admin:'' @ to_string (digestRealm c) @ '':'' @ pw),
            profileScript = script\<rparr>"
  by (auto simp: finish_configuration_def Let_def split: prod.splits sum.splits reply.splits)

lemma getProvisioningCertObj_OkD:
  "getProvisioningCertObj h config conns domain index = (Inr (Ok certobj), ev) \<Longrightarrow>
     \<exists>d der pfxobj. find_domain (AMTDomains config) domain = Some d \<and>
        readFileSync h (ProvisioningCert d) = Some der \<and>
        pkcs12FromDer h der (ProvisioningCertPassword d) = Decoded pfxobj \<and>
        dumpPfx conns pfxobj index = Inr (Ok certobj)"
  by (auto simp: getProvisioningCertObj_def convertPfxToObject_def Let_def
      split: if_splits option.splits pkcs12_result.splits prod.splits sum.splits reply.splits)

lemma getProvisioningCertObj_ErrorD:
  "getProvisioningCertObj h config conns domain index = (Inr (ErrorText t), ev) \<Longrightarrow>
     t \<in> {domain_missing_text, domain_mismatch_text, cert_not_found_text, decrypt_failed_text, untrusted_text}"
  by (auto simp: getProvisioningCertObj_def convertPfxToObject_def dumpPfx_def Let_def
      split: if_splits option.splits pkcs12_result.splits prod.splits sum.splits reply.splits)

lemma remoteConfiguration_OkD:
  assumes "fst (remoteConfiguration h config conns fw cindex) = Inr (Ok p)"
  shows "\<exists>c certobj ev f sig pw script.
     conns cindex = Some c \<and>
     getProvisioningCertObj h config conns
       (if truthy (dnsSuffix c) then dnsSuffix c else Null) cindex = (Inr (Ok certobj), ev) \<and>
     fw = Some f \<and>
     signString h (f @ generateNonce h) (privateKey certobj) = Ok sig \<and>
     fst (resolve_password config c) = Inr (Ok pw) \<and>
     fst (read_script h config cindex) = Inr script \<and>
     p = \<lparr>action = ''acmactivate'', certs = certobj\<lparr>privateKey := None\<rparr>,
          nonce = base64 (generateNonce h), signature = sig,
          password = md5_hex (''admin:'' @ to_string (digestRealm c) @ '':'' @ pw),
          profileScript = script\<rparr>"
proof -
  from assms obtain c where c: "conns cindex = Some c"
    by (auto simp: remoteConfiguration_def split: option.splits)
  define dns where "dns = (if truthy (dnsSuffix c) then dnsSuffix c else Null)"
  obtain r ev where g: "getProvisioningCertObj h config conns dns cindex = (r, ev)"
    by (cases "getProvisioningCertObj h config conns dns cindex")
  from assms c g obtain certobj where r: "r = Inr (Ok certobj)"
    by (auto simp: remoteConfiguration_def Let_def dns_def split: sum.splits reply.splits)
  from assms c g r obtain t where t: "sign_nonces h fw certobj = Inr (Ok t)"
    and fin: "fst (finish_configuration h config c cindex t) = Inr (Ok p)"
    by (auto simp: remoteConfiguration_def Let_def dns_def split: sum.splits reply.splits prod.splits)
  from sign_nonces_OkD [OF t] finish_configuration_OkD [OF fin] c g r
  show ?thesis
    unfolding dns_def by fastforce
qed

lemma remoteConfiguration_ErrorD:
  assumes "fst (remoteConfiguration h config conns fw cindex) = Inr (ErrorText t)"
  shows "t \<in> set error_texts"
proof (cases "conns cindex")
  case None
  with assms show ?thesis by (simp add: remoteConfiguration_def error_texts_def)
next
  case (Some c)
  define dns where "dns = (if truthy (dnsSuffix c) then dnsSuffix c else Null)"
  obtain r ev where g: "getProvisioningCertObj h config conns dns cindex = (r, ev)"
    by (cases "getProvisioningCertObj h config conns dns cindex")
  show ?thesis
  proof (cases r)
    case (Inl e)
    with assms Some g show ?thesis
      by (simp add: remoteConfiguration_def Let_def dns_def)
  next
    case (Inr rep)
    show ?thesis
    proof (cases rep)
      case (ErrorText t')
      with assms Some g Inr have "t' = t"
        by (simp add: remoteConfiguration_def Let_def dns_def)
      with getProvisioningCertObj_ErrorD g Inr ErrorText show ?thesis
        by (fastforce simp: error_texts_def)
    next
      case (Ok certobj)
      with assms Some g Inr show ?thesis
        by (auto simp: remoteConfiguration_def Let_def dns_def sign_nonces_def signString_def
            finish_configuration_def resolve_password_def error_texts_def
            split: sum.splits reply.splits prod.splits option.splits if_splits list.splits)
    qed
  qed
qed

lemma demo_remoteConfiguration:
  "remoteConfiguration (demo_host demo_pfx) demo_config
     [0 \<mapsto> demo_connection trusted_hashes] (Some demo_fwNonce) 0 =
   (Inr (Ok \<lparr>action = ''acmactivate'',
       certs = \<lparr>certChain =
           [Str (crlf @ ''Y2VydC1sZWFm'' @ crlf @ crlf),
            Str (crlf @ ''Y2VydC1pbnRlcjE='' @ crlf @ crlf),
            Str (crlf @ ''Y2VydC1pbnRlcjI='' @ crlf @ crlf),
            Str (crlf @ ''Y2VydC1yb290'' @ crlf @ crlf)],
         privateKey = None\<rparr>,
       nonce = ''BRYnOElaa3yNnq/A0eLzBBUmN0g='',
       signature = ''SDcmFQTz4tHAr56NfGtaSTgnFgUUExIREA8ODQwLCgkIBwYFBAMCAQ=='',
       password = ''0591c04939ebfbaed12d7c3e62a2ce46'',
       profileScript = Null\<rparr>),
    [ExistsSync ''./private/vprodemo.pfx'', ReadFileSync ''./private/vprodemo.pfx''])"
  by code_simp

section \<open>The private key stays on the server\<close>

text \<open>
  Claim C2. Whatever \<open>remoteConfiguration\<close> returns holds no private key. A payload
  is, field by field:
  \<^item> \<open>certs\<close>: no \<open>privateKey\<close>, and a \<open>certChain\<close> computed from the certificates
    of the matched domain's container alone, each element of which is the trimmed PEM of
    one of these certificates or \<open>undefined\<close>;
  \<^item> \<open>nonce\<close>: the base64 text of the 20 random bytes;
  \<^item> \<open>signature\<close>: the base64 text of what the SHA-256 signer returned for the two
    nonces, the only place where the key is used, as the signer's key;
  \<^item> \<open>password\<close>: the MD5 digest of realm and AMT password;
  \<^item> \<open>profileScript\<close>: what the script lookup gave.
  A failure is one of the eight fixed error texts.
\<close>

theorem payload_without_private_key:
  assumes "fst (remoteConfiguration h config conns fw cindex) = Inr r"
  shows "(\<forall>p. r = Ok p \<longrightarrow>
            (\<exists>c d der pfxobj f raw pw script.
               conns cindex = Some c \<and>
               find_domain (AMTDomains config) (dnsSuffix c) = Some d \<and>
               readFileSync h (ProvisioningCert d) = Some der \<and>
               pkcs12FromDer h der (ProvisioningCertPassword d) = Decoded pfxobj \<and>
               pfx_keys pfxobj \<noteq> [] \<and>
               fw = Some f \<and>
               sign_sha256 h (last (pfx_keys pfxobj)) (f @ map (randomBytes h) [0..<20])
                 = Some raw \<and>
               fst (resolve_password config c) = Inr (Ok pw) \<and>
               fst (read_script h config cindex) = Inr script \<and>
               p = \<lparr>action = ''acmactivate'',
                    certs =
                      \<lparr>certChain =
                         (let s = scan_certs 0 (pfx_certs pfxobj) empty_scan in
                          [prop_of pem (leaf s)]
                          @ map (\<lambda>e. Str (pem e))
                              (filter (\<lambda>e. \<not> sortCertificate e (root s)) (interObj s))
                          @ map (\<lambda>e. Str (pem e))
                              (filter (\<lambda>e. sortCertificate e (root s)) (interObj s))
                          @ [prop_of pem (root s)]),
                       privateKey = None\<rparr>,
                    nonce = base64 (map (randomBytes h) [0..<20]),
                    signature = base64 raw,
                    password = md5_hex (''admin:'' @ to_string (digestRealm c) @ '':'' @ pw),
                    profileScript = script\<rparr> \<and>
               (\<forall>x \<in> set (certChain (certs p)).
                  x = Undefined \<or>
                  (\<exists>cert \<in> set (pfx_certs pfxobj).
                     x = Str (trim_pem (certificateToPem cert))))))
       \<and> (\<forall>t. r = ErrorText t \<longrightarrow> t \<in> set error_texts)"
proof (intro conjI allI impI)
  fix p assume "r = Ok p"
  with assms have ok: "fst (remoteConfiguration h config conns fw cindex) = Inr (Ok p)" by simp
  from remoteConfiguration_OkD [OF ok]
  obtain c certobj ev f sig pw script where *:
     "conns cindex = Some c"
     "getProvisioningCertObj h config conns
       (if truthy (dnsSuffix c) then dnsSuffix c else Null) cindex = (Inr (Ok certobj), ev)"
     "fw = Some f"
     "signString h (f @ generateNonce h) (privateKey certobj) = Ok sig"
     "fst (resolve_password config c) = Inr (Ok pw)"
     "fst (read_script h config cindex) = Inr script"
     "p = \<lparr>action = ''acmactivate'', certs = certobj\<lparr>privateKey := None\<rparr>,
          nonce = base64 (generateNonce h), signature = sig,
          password = md5_hex (''admin:'' @ to_string (digestRealm c) @ '':'' @ pw),
          profileScript = script\<rparr>"
    by blast
  have t: "truthy (dnsSuffix c)"
    using *(2) by (auto simp: getProvisioningCertObj_def split: if_splits)
  from getProvisioningCertObj_OkD [OF *(2)] t
  obtain d der pfxobj where d:
    "find_domain (AMTDomains config) (dnsSuffix c) = Some d"
    "readFileSync h (ProvisioningCert d) = Some der"
    "pkcs12FromDer h der (ProvisioningCertPassword d) = Decoded pfxobj"
    "dumpPfx conns pfxobj cindex = Inr (Ok certobj)"
    by auto
  define s where "s = scan_certs 0 (pfx_certs pfxobj) empty_scan"
  have obj: "certobj = assemble pfxobj s"
    using dumpPfx_OkD [OF d(4)] by (simp add: s_def)
  from signString_OkD [OF *(4)] obtain k raw where k:
    "privateKey certobj = Some k" "sign_sha256 h k (f @ generateNonce h) = Some raw"
    "sig = base64 raw"
    by blast
  from k(1) have keys: "pfx_keys pfxobj \<noteq> []" "k = last (pfx_keys pfxobj)"
    by (auto simp: obj assemble_privateKey split: if_splits)
  have chain: "certChain certobj =
      [prop_of pem (leaf s)]
      @ map (\<lambda>e. Str (pem e)) (filter (\<lambda>e. \<not> sortCertificate e (root s)) (interObj s))
      @ map (\<lambda>e. Str (pem e)) (filter (\<lambda>e. sortCertificate e (root s)) (interObj s))
      @ [prop_of pem (root s)]"
    by (simp add: obj assemble_certChain)
  have p: "p = \<lparr>action = ''acmactivate'',
                    certs =
                      \<lparr>certChain =
                         (let s = scan_certs 0 (pfx_certs pfxobj) empty_scan in
                          [prop_of pem (leaf s)]
                          @ map (\<lambda>e. Str (pem e))
                              (filter (\<lambda>e. \<not> sortCertificate e (root s)) (interObj s))
                          @ map (\<lambda>e. Str (pem e))
                              (filter (\<lambda>e. sortCertificate e (root s)) (interObj s))
                          @ [prop_of pem (root s)]),
                       privateKey = None\<rparr>,
                    nonce = base64 (map (randomBytes h) [0..<20]),
                    signature = base64 raw,
                    password = md5_hex (''admin:'' @ to_string (digestRealm c) @ '':'' @ pw),
                    profileScript = script\<rparr>"
    unfolding *(7) k(3) Let_def s_def [symmetric] chain [symmetric]
    by (simp add: generateNonce_def)
  have elems: "\<forall>x \<in> set (certChain (certs p)).
                  x = Undefined \<or>
                  (\<exists>cert \<in> set (pfx_certs pfxobj).
                     x = Str (trim_pem (certificateToPem cert)))"
    using certChain_elements [of _ pfxobj] by (simp add: *(7) obj s_def)
  have sg: "sign_sha256 h (last (pfx_keys pfxobj)) (f @ map (randomBytes h) [0..<20]) = Some raw"
    using k(2) keys(2) by (simp add: generateNonce_def)
  from *(1,3,5,6) d(1-3) keys(1) sg p elems
  show "\<exists>c d der pfxobj f raw pw script.
               conns cindex = Some c \<and>
               find_domain (AMTDomains config) (dnsSuffix c) = Some d \<and>
               readFileSync h (ProvisioningCert d) = Some der \<and>
               pkcs12FromDer h der (ProvisioningCertPassword d) = Decoded pfxobj \<and>
               pfx_keys pfxobj \<noteq> [] \<and>
               fw = Some f \<and>
               sign_sha256 h (last (pfx_keys pfxobj)) (f @ map (randomBytes h) [0..<20])
                 = Some raw \<and>
               fst (resolve_password config c) = Inr (Ok pw) \<and>
               fst (read_script h config cindex) = Inr script \<and>
               p = \<lparr>action = ''acmactivate'',
                    certs =
                      \<lparr>certChain =
                         (let s = scan_certs 0 (pfx_certs pfxobj) empty_scan in
                          [prop_of pem (leaf s)]
                          @ map (\<lambda>e. Str (pem e))
                              (filter (\<lambda>e. \<not> sortCertificate e (root s)) (interObj s))
                          @ map (\<lambda>e. Str (pem e))
                              (filter (\<lambda>e. sortCertificate e (root s)) (interObj s))
                          @ [prop_of pem (root s)]),
                       privateKey = None\<rparr>,
                    nonce = base64 (map (randomBytes h) [0..<20]),
                    signature = base64 raw,
                    password = md5_hex (''admin:'' @ to_string (digestRealm c) @ '':'' @ pw),
                    profileScript = script\<rparr> \<and>
               (\<forall>x \<in> set (certChain (certs p)).
                  x = Undefined \<or>
                  (\<exists>cert \<in> set (pfx_certs pfxobj).
                     x = Str (trim_pem (certificateToPem cert))))"
    by (intro exI conjI)
next
  fix t assume "r = ErrorText t"
  with assms remoteConfiguration_ErrorD show "t \<in> set error_texts" by simp
qed

text \<open>
  In the scenario the container holds a key, the payload holds none, and the signature
  is the stand-in signer's output for the two nonces.
\<close>

theorem payload_without_private_key_witness:
  "\<exists>p. fst (remoteConfiguration (demo_host demo_pfx) demo_config
            [0 \<mapsto> demo_connection trusted_hashes] (Some demo_fwNonce) 0) = Inr (Ok p)
       \<and> pfx_keys demo_pfx = [demo_key]
       \<and> privateKey (certs p) = None
       \<and> signature p =
           base64 (rev (demo_fwNonce @ map (randomBytes (demo_host demo_pfx)) [0..<20]))
       \<and> nonce p = base64 (map (randomBytes (demo_host demo_pfx)) [0..<20])"
proof -
  obtain r ev where r: "remoteConfiguration (demo_host demo_pfx) demo_config
            [0 \<mapsto> demo_connection trusted_hashes] (Some demo_fwNonce) 0 = (Inr (Ok r), ev)"
    using demo_remoteConfiguration by blast
  then have ok: "fst (remoteConfiguration (demo_host demo_pfx) demo_config
            [0 \<mapsto> demo_connection trusted_hashes] (Some demo_fwNonce) 0) = Inr (Ok r)"
    by simp
  have s: "sign_sha256 (demo_host demo_pfx) k m = Some raw \<longleftrightarrow> raw = rev m" for k m raw
    by (auto simp: demo_host_def)
  from payload_without_private_key [OF ok, THEN conjunct1, rule_format, OF refl]
  obtain f raw cc where
    "Some demo_fwNonce = Some f"
    "raw = rev (f @ map (randomBytes (demo_host demo_pfx)) [0..<20])"
    "r = \<lparr>action = ''acmactivate'', certs = \<lparr>certChain = cc, privateKey = None\<rparr>,
          nonce = base64 (map (randomBytes (demo_host demo_pfx)) [0..<20]),
          signature = base64 raw,
          password = password r, profileScript = profileScript r\<rparr>"
    unfolding s by fastforce
  then have "privateKey (certs r) = None"
    and "signature r =
           base64 (rev (demo_fwNonce @ map (randomBytes (demo_host demo_pfx)) [0..<20]))"
    and "nonce r = base64 (map (randomBytes (demo_host demo_pfx)) [0..<20])"
    by (metis cert_object.select_convs(2) rcs_object.select_convs(2),
        metis option.inject rcs_object.select_convs(4),
        metis rcs_object.select_convs(3))
  with ok show ?thesis
    by (auto simp: demo_pfx_def)
qed

section \<open>Nonce, signature and password digest\<close>

text \<open>
  Claim C5. Whenever \<open>remoteConfiguration\<close> returns a payload, the console nonce is
  the 20 bytes drawn from the random source, the payload's \<open>nonce\<close> is their base64
  text, and its \<open>signature\<close> is the base64 text of the SHA-256 signature, made with the
  private key of the matched domain's container, over the firmware nonce followed by the
  console nonce.
\<close>

theorem nonce_and_signature:
  assumes ok: "fst (remoteConfiguration h config conns fw cindex) = Inr (Ok p)"
  shows "\<exists>firmwareNonce c d der pfxobj raw.
           fw = Some firmwareNonce \<and>
           length (generateNonce h) = 20 \<and>
           generateNonce h = map (randomBytes h) [0..<20] \<and>
           nonce p = base64 (generateNonce h) \<and>
           conns cindex = Some c \<and>
           find_domain (AMTDomains config) (dnsSuffix c) = Some d \<and>
           readFileSync h (ProvisioningCert d) = Some der \<and>
           pkcs12FromDer h der (ProvisioningCertPassword d) = Decoded pfxobj \<and>
           pfx_keys pfxobj \<noteq> [] \<and>
           sign_sha256 h (last (pfx_keys pfxobj)) (firmwareNonce @ generateNonce h) = Some raw \<and>
           signature p = base64 raw"
proof -
  from remoteConfiguration_OkD [OF ok]
  obtain c certobj ev f sig pw script where *:
     "conns cindex = Some c"
     "getProvisioningCertObj h config conns
       (if truthy (dnsSuffix c) then dnsSuffix c else Null) cindex = (Inr (Ok certobj), ev)"
     "fw = Some f"
     "signString h (f @ generateNonce h) (privateKey certobj) = Ok sig"
     "nonce p = base64 (generateNonce h)" "signature p = sig"
    by fastforce
  have t: "truthy (dnsSuffix c)"
    using *(2) by (auto simp: getProvisioningCertObj_def split: if_splits)
  from getProvisioningCertObj_OkD [OF *(2)] t
  obtain d der pfxobj where d:
    "find_domain (AMTDomains config) (dnsSuffix c) = Some d"
    "readFileSync h (ProvisioningCert d) = Some der"
    "pkcs12FromDer h der (ProvisioningCertPassword d) = Decoded pfxobj"
    "dumpPfx conns pfxobj cindex = Inr (Ok certobj)"
    by auto
  from signString_OkD [OF *(4)] obtain k raw where k:
    "privateKey certobj = Some k" "sign_sha256 h k (f @ generateNonce h) = Some raw"
    "sig = base64 raw"
    by blast
  have "privateKey certobj =
      (if pfx_keys pfxobj = [] then None else Some (last (pfx_keys pfxobj)))"
    using dumpPfx_OkD [OF d(4)] by (simp add: assemble_privateKey)
  with k(1) have keys: "pfx_keys pfxobj \<noteq> []" "k = last (pfx_keys pfxobj)"
    by (auto split: if_splits)
  show ?thesis
    using * d k keys generateNonce_length by (auto simp: generateNonce_def)
qed

theorem nonce_and_signature_witness:
  "\<exists>p. fst (remoteConfiguration (demo_host demo_pfx) demo_config
            [0 \<mapsto> demo_connection trusted_hashes] (Some demo_fwNonce) 0) = Inr (Ok p)
       \<and> nonce p = ''BRYnOElaa3yNnq/A0eLzBBUmN0g=''
       \<and> nonce p = base64 (generateNonce (demo_host demo_pfx))
       \<and> length (generateNonce (demo_host demo_pfx)) = 20
       \<and> signature p = base64 (rev (demo_fwNonce @ generateNonce (demo_host demo_pfx)))"
proof -
  obtain r ev where r: "remoteConfiguration (demo_host demo_pfx) demo_config
            [0 \<mapsto> demo_connection trusted_hashes] (Some demo_fwNonce) 0 = (Inr (Ok r), ev)"
    and n: "nonce r = ''BRYnOElaa3yNnq/A0eLzBBUmN0g=''"
    using demo_remoteConfiguration by fastforce
  then have ok: "fst (remoteConfiguration (demo_host demo_pfx) demo_config
            [0 \<mapsto> demo_connection trusted_hashes] (Some demo_fwNonce) 0) = Inr (Ok r)"
    by simp
  have s: "sign_sha256 (demo_host demo_pfx) k m = Some (rev m)" for k m
    by (simp add: demo_host_def)
  from nonce_and_signature [OF ok] show ?thesis
    using ok n by (auto simp: s)
qed

text \<open>
  Claim C9. Whenever \<open>remoteConfiguration\<close> returns a payload for a connection whose
  digest realm is the string \<open>R\<close>, the payload's \<open>password\<close> is the hex MD5 digest of
  \<open>admin:R:P\<close>, where \<open>P\<close> is the AMT password the profile resolves to.
\<close>

theorem password_digest:
  assumes ok: "fst (remoteConfiguration h config conns fw cindex) = Inr (Ok p)"
    and conn: "conns cindex = Some c"
    and realm: "digestRealm c = Str R"
  shows "\<exists>P. fst (resolve_password config c) = Inr (Ok P) \<and>
             password p = md5_hex (''admin:'' @ R @ '':'' @ P)"
  using remoteConfiguration_OkD [OF ok] conn realm by fastforce

theorem password_digest_witness:
  "\<exists>p. fst (remoteConfiguration (demo_host demo_pfx) demo_config
            [0 \<mapsto> demo_connection trusted_hashes] (Some demo_fwNonce) 0) = Inr (Ok p)
       \<and> fst (resolve_password demo_config (demo_connection trusted_hashes)) = Inr (Ok ''pw1'')
       \<and> password p = md5_hex
            (''admin:'' @ ''Digest:A4070000000000000000000000000000'' @ '':'' @ ''pw1'')
       \<and> password p = ''0591c04939ebfbaed12d7c3e62a2ce46''"
proof -
  obtain r ev where r: "remoteConfiguration (demo_host demo_pfx) demo_config
            [0 \<mapsto> demo_connection trusted_hashes] (Some demo_fwNonce) 0 = (Inr (Ok r), ev)"
    and n: "password r = ''0591c04939ebfbaed12d7c3e62a2ce46''"
    using demo_remoteConfiguration by fastforce
  then have ok: "fst (remoteConfiguration (demo_host demo_pfx) demo_config
            [0 \<mapsto> demo_connection trusted_hashes] (Some demo_fwNonce) 0) = Inr (Ok r)"
    by simp
  have conn: "[0 \<mapsto> demo_connection trusted_hashes] 0 = Some (demo_connection trusted_hashes)"
    by simp
  have realm: "digestRealm (demo_connection trusted_hashes) =
      Str ''Digest:A4070000000000000000000000000000''"
    by (simp add: demo_connection_def)
  have pw: "fst (resolve_password demo_config (demo_connection trusted_hashes)) = Inr (Ok ''pw1'')"
    by (simp add: resolve_password_def demo_config_def demo_connection_def)
  from password_digest [where conns = "[0 \<mapsto> demo_connection trusted_hashes]" and cindex = 0,
      OF ok conn realm]
  show ?thesis
    using ok n pw by auto
qed

section \<open>Profile and domain resolution\<close>

text \<open>
  Claim C8. For an existing connection:
  \<^item> if no profile name is recorded (absent, the empty string or null) and
    \<open>AMTConfigurations\<close> has a first entry, the password resolves to that entry's
    \<open>AMTPassword\<close> with no error and nothing logged, and every payload returned carries
    the digest of that password;
  \<^item> if a profile name is recorded and no entry has it as its \<open>ProfileName\<close>, the
    resolution fails with the unknown-profile error text (and logs it), no payload is
    ever returned, and once the certificate object and the signature are there the
    engine returns exactly that error.
\<close>

theorem profile_resolution:
  assumes conn: "conns cindex = Some c"
  shows "(profile c = Undefined \<or> profile c = Str [] \<or> profile c = Null \<longrightarrow>
            (\<forall>first others. AMTConfigurations config = first # others \<longrightarrow>
               resolve_password config c = (Inr (Ok (AMTPassword first)), []) \<and>
               (\<forall>p. fst (remoteConfiguration h config conns fw cindex) = Inr (Ok p) \<longrightarrow>
                  password p =
                    md5_hex (''admin:'' @ to_string (digestRealm c) @ '':'' @ AMTPassword first))))
       \<and> (\<forall>name. profile c = Str name \<and> name \<noteq> [] \<and>
             (\<forall>x \<in> set (AMTConfigurations config). ProfileName x \<noteq> name) \<longrightarrow>
             resolve_password config c =
               (Inr (ErrorText
                  ''Specified AMT profile name does not match list of available AMT profiles.''),
                [Output
                  ''Specified AMT profile name does not match list of available AMT profiles.'']) \<and>
             (\<forall>p. fst (remoteConfiguration h config conns fw cindex) \<noteq> Inr (Ok p)) \<and>
             (\<forall>certobj ev t.
                getProvisioningCertObj h config conns
                  (if truthy (dnsSuffix c) then dnsSuffix c else Null) cindex
                  = (Inr (Ok certobj), ev) \<and>
                sign_nonces h fw certobj = Inr (Ok t) \<longrightarrow>
                fst (remoteConfiguration h config conns fw cindex) =
                  Inr (ErrorText
                    ''Specified AMT profile name does not match list of available AMT profiles.'')))"
proof (intro conjI impI allI)
  fix first others
  assume unset: "profile c = Undefined \<or> profile c = Str [] \<or> profile c = Null"
    and cfg: "AMTConfigurations config = first # others"
  from unset show r: "resolve_password config c = (Inr (Ok (AMTPassword first)), [])"
    by (auto simp: resolve_password_def cfg)
  fix p assume ok: "fst (remoteConfiguration h config conns fw cindex) = Inr (Ok p)"
  from remoteConfiguration_OkD [OF ok] conn r
  show "password p =
      md5_hex (''admin:'' @ to_string (digestRealm c) @ '':'' @ AMTPassword first)"
    by fastforce
next
  fix name
  assume a: "profile c = Str name \<and> name \<noteq> [] \<and>
             (\<forall>x \<in> set (AMTConfigurations config). ProfileName x \<noteq> name)"
  then have none: "find_profile (AMTConfigurations config) (Str name) = None"
    by (simp add: find_profile_None)
  with a show r: "resolve_password config c =
               (Inr (ErrorText
                  ''Specified AMT profile name does not match list of available AMT profiles.''),
                [Output
                  ''Specified AMT profile name does not match list of available AMT profiles.''])"
    by (simp add: resolve_password_def profile_mismatch_text_def)
  {
    fix p
    show "fst (remoteConfiguration h config conns fw cindex) \<noteq> Inr (Ok p)"
    proof
      assume ok: "fst (remoteConfiguration h config conns fw cindex) = Inr (Ok p)"
      from remoteConfiguration_OkD [OF ok] conn r show False
        by fastforce
    qed
  }
  fix certobj ev t
  assume "getProvisioningCertObj h config conns
            (if truthy (dnsSuffix c) then dnsSuffix c else Null) cindex
            = (Inr (Ok certobj), ev) \<and>
          sign_nonces h fw certobj = Inr (Ok t)"
  then show "fst (remoteConfiguration h config conns fw cindex) =
      Inr (ErrorText
        ''Specified AMT profile name does not match list of available AMT profiles.'')"
    by (simp add: remoteConfiguration_def conn Let_def finish_configuration_def r)
qed

theorem profile_resolution_witness:
  "resolve_password demo_config (demo_connection trusted_hashes) = (Inr (Ok ''pw1''), [])
   \<and> (\<exists>p. fst (remoteConfiguration (demo_host demo_pfx) demo_config
              [0 \<mapsto> demo_connection trusted_hashes] (Some demo_fwNonce) 0) = Inr (Ok p)
          \<and> password p = md5_hex
               (''admin:'' @ ''Digest:A4070000000000000000000000000000'' @ '':'' @ ''pw1''))
   \<and> fst (remoteConfiguration (demo_host demo_pfx) demo_config
              [0 \<mapsto> (demo_connection trusted_hashes)\<lparr>profile := Str ''kiosk''\<rparr>]
              (Some demo_fwNonce) 0)
       = Inr (ErrorText
           ''Specified AMT profile name does not match list of available AMT profiles.'')"
proof -
  let ?c = "demo_connection trusted_hashes"
  let ?k = "(demo_connection trusted_hashes)\<lparr>profile := Str ''kiosk''\<rparr>"
  have conn: "[0 \<mapsto> ?c] 0 = Some ?c" and conn': "[0 \<mapsto> ?k] 0 = Some ?k"
    by simp_all
  have unset: "profile ?c = Undefined \<or> profile ?c = Str [] \<or> profile ?c = Null"
    by (simp add: demo_connection_def)
  have cfg: "AMTConfigurations demo_config =
      \<lparr>ProfileName = ''default'', AMTPassword = ''pw1'', ConfigurationScript = Null\<rparr> # []"
    by (simp add: demo_config_def)
  have realm: "to_string (digestRealm ?c) = ''Digest:A4070000000000000000000000000000''"
    by (simp add: demo_connection_def)
  obtain r ev where "remoteConfiguration (demo_host demo_pfx) demo_config
            [0 \<mapsto> ?c] (Some demo_fwNonce) 0 = (Inr (Ok r), ev)"
    using demo_remoteConfiguration by blast
  then have ok: "fst (remoteConfiguration (demo_host demo_pfx) demo_config
            [0 \<mapsto> ?c] (Some demo_fwNonce) 0) = Inr (Ok r)"
    by simp
  have named: "profile ?k = Str ''kiosk'' \<and> ''kiosk'' \<noteq> [] \<and>
      (\<forall>x \<in> set (AMTConfigurations demo_config). ProfileName x \<noteq> ''kiosk'')"
    by (simp add: demo_config_def)
  have err: "fst (remoteConfiguration (demo_host demo_pfx) demo_config
              [0 \<mapsto> ?k] (Some demo_fwNonce) 0)
       = Inr (ErrorText
           ''Specified AMT profile name does not match list of available AMT profiles.'')"
    by code_simp
  note a = profile_resolution [where conns = "[0 \<mapsto> ?c]" and cindex = 0
      and config = demo_config and h = "demo_host demo_pfx" and fw = "Some demo_fwNonce",
      OF conn, THEN conjunct1, rule_format, OF unset cfg]
  note b = profile_resolution [where conns = "[0 \<mapsto> ?k]" and cindex = 0
      and config = demo_config and h = "demo_host demo_pfx" and fw = "Some demo_fwNonce",
      OF conn', THEN conjunct2, rule_format, OF named]
  from a have 1: "resolve_password demo_config ?c = (Inr (Ok ''pw1''), [])"
    by simp
  from a ok have 2: "password r = md5_hex
               (''admin:'' @ ''Digest:A4070000000000000000000000000000'' @ '':'' @ ''pw1'')"
    by (simp add: realm)
  from b have 3: "\<forall>p. fst (remoteConfiguration (demo_host demo_pfx) demo_config
              [0 \<mapsto> ?k] (Some demo_fwNonce) 0) \<noteq> Inr (Ok p)"
    by blast
  from 1 2 ok err show ?thesis
    by blast
qed

text \<open>
  Claim C7. For an existing connection:
  \<^item> if no domain suffix is recorded, the engine returns the missing-domain error;
  \<^item> if a domain suffix is recorded and no entry of \<open>AMTDomains\<close> has it as its
    \<open>DomainSuffix\<close>, the engine returns exactly the error text of the claim; it logs
    that text and does nothing else: no \<open>existsSync\<close>, no \<open>readFileSync\<close>, so the
    container is not touched.
\<close>

theorem domain_resolution:
  assumes conn: "conns cindex = Some c"
  shows "(\<not> truthy (dnsSuffix c) \<longrightarrow>
            remoteConfiguration h config conns fw cindex =
              (Inr (ErrorText ''AMT domain suffix not specified.''), []))
       \<and> (\<forall>d. dnsSuffix c = Str d \<and> d \<noteq> [] \<and>
                (\<forall>x \<in> set (AMTDomains config). DomainSuffix x \<noteq> d) \<longrightarrow>
            remoteConfiguration h config conns fw cindex =
              (Inr (ErrorText
                 ''Specified AMT domain suffix does not match list of available AMT domain suffixes.''),
               [Output
                 ''Specified AMT domain suffix does not match list of available AMT domain suffixes.'']))"
proof (intro conjI impI allI)
  assume "\<not> truthy (dnsSuffix c)"
  then show "remoteConfiguration h config conns fw cindex =
              (Inr (ErrorText ''AMT domain suffix not specified.''), [])"
    by (simp add: remoteConfiguration_def conn getProvisioningCertObj_def domain_missing_text_def)
next
  fix d
  assume a: "dnsSuffix c = Str d \<and> d \<noteq> [] \<and>
                (\<forall>x \<in> set (AMTDomains config). DomainSuffix x \<noteq> d)"
  then have "find_domain (AMTDomains config) (Str d) = None"
    by (simp add: find_domain_None)
  with a show "remoteConfiguration h config conns fw cindex =
              (Inr (ErrorText
                 ''Specified AMT domain suffix does not match list of available AMT domain suffixes.''),
               [Output
                 ''Specified AMT domain suffix does not match list of available AMT domain suffixes.''])"
    by (simp add: remoteConfiguration_def conn getProvisioningCertObj_def domain_mismatch_text_def)
qed

theorem domain_resolution_witness:
  "remoteConfiguration (demo_host demo_pfx) demo_config
      [0 \<mapsto> new_connection] None 0
     = (Inr (ErrorText ''AMT domain suffix not specified.''), [])
   \<and> remoteConfiguration (demo_host demo_pfx) demo_config
      [0 \<mapsto> (demo_connection trusted_hashes)\<lparr>dnsSuffix := Str ''example.org''\<rparr>]
      (Some demo_fwNonce) 0
     = (Inr (ErrorText
          ''Specified AMT domain suffix does not match list of available AMT domain suffixes.''),
        [Output
          ''Specified AMT domain suffix does not match list of available AMT domain suffixes.''])"
proof -
  let ?k = "(demo_connection trusted_hashes)\<lparr>dnsSuffix := Str ''example.org''\<rparr>"
  have conn: "[0 \<mapsto> new_connection] 0 = Some new_connection" and conn': "[0 \<mapsto> ?k] 0 = Some ?k"
    by simp_all
  have unset: "\<not> truthy (dnsSuffix new_connection)"
    by (simp add: new_connection_def)
  have named: "dnsSuffix ?k = Str ''example.org'' \<and> ''example.org'' \<noteq> [] \<and>
      (\<forall>x \<in> set (AMTDomains demo_config). DomainSuffix x \<noteq> ''example.org'')"
    by (simp add: demo_config_def)
  note a = domain_resolution [where conns = "[0 \<mapsto> new_connection]" and cindex = 0
      and config = demo_config and h = "demo_host demo_pfx" and fw = None,
      OF conn, THEN conjunct1, rule_format, OF unset]
  note b = domain_resolution [where conns = "[0 \<mapsto> ?k]" and cindex = 0
      and config = demo_config and h = "demo_host demo_pfx" and fw = "Some demo_fwNonce",
      OF conn', THEN conjunct2, rule_format, OF named]
  from a b show ?thesis
    by blast
qed

section \<open>Containers without a root or without a key\<close>

text \<open>
  Claim C4, as the code has it. There is no incomplete-chain error. For a container
  with no self-signed certificate after the leaf no fingerprint is computed, and
  \<^item> if every recorded hash entry carries a string \<open>certificateHash\<close>, \<open>dumpPfx\<close>
    returns the untrusted-certificate error text;
  \<^item> a container without a private key that passes the trust check makes the signing
    step return the signature error text;
  \<^item> and so every payload \<open>remoteConfiguration\<close> returns comes from a container of the
    matched domain that holds a private key and, if every recorded hash entry carries a
    string \<open>certificateHash\<close>, a self-signed certificate after the leaf.
\<close>

theorem incomplete_container:
  "(\<forall>c H. conns index = Some c \<and> certHashes c = Some H \<and>
           (\<forall>e \<in> set H. \<exists>s. certificateHash e = Str s) \<and>
           filter self_signed (tl (pfx_certs pfxobj)) = [] \<longrightarrow>
         dumpPfx conns pfxobj index =
           Inr (ErrorText
             ''Provisioning Certificate doesn't match any trusted certificates from AMT''))
   \<and> (\<forall>certobj f. pfx_keys pfxobj = [] \<and> dumpPfx conns pfxobj index = Inr (Ok certobj) \<longrightarrow>
         sign_nonces h (Some f) certobj = Inr (ErrorText ''Unable to create Digital Signature''))
   \<and> (\<forall>p. fst (remoteConfiguration h config conns fw index) = Inr (Ok p) \<longrightarrow>
         (\<exists>c H d der pfx.
            conns index = Some c \<and> certHashes c = Some H \<and>
            find_domain (AMTDomains config) (dnsSuffix c) = Some d \<and>
            readFileSync h (ProvisioningCert d) = Some der \<and>
            pkcs12FromDer h der (ProvisioningCertPassword d) = Decoded pfx \<and>
            pfx_keys pfx \<noteq> [] \<and>
            ((\<forall>e \<in> set H. \<exists>s. certificateHash e = Str s) \<longrightarrow>
               filter self_signed (tl (pfx_certs pfx)) \<noteq> [])))"
proof (intro conjI allI impI)
  fix c H
  assume a: "conns index = Some c \<and> certHashes c = Some H \<and>
           (\<forall>e \<in> set H. \<exists>s. certificateHash e = Str s) \<and>
           filter self_signed (tl (pfx_certs pfxobj)) = []"
  then have "fingerprint (scan_certs 0 (pfx_certs pfxobj) empty_scan) = None"
    by (simp add: scan_certs_no_root)
  moreover from a have "\<not> hash_match H Undefined"
    by (simp add: hash_match_Undefined)
  ultimately show "dumpPfx conns pfxobj index =
           Inr (ErrorText
             ''Provisioning Certificate doesn't match any trusted certificates from AMT'')"
    using a by (simp add: dumpPfx_def Let_def untrusted_text_def)
next
  fix certobj f
  assume a: "pfx_keys pfxobj = [] \<and> dumpPfx conns pfxobj index = Inr (Ok certobj)"
  then have "privateKey certobj = None"
    using dumpPfx_OkD [of conns pfxobj index certobj] by (simp add: assemble_privateKey)
  then show "sign_nonces h (Some f) certobj = Inr (ErrorText ''Unable to create Digital Signature'')"
    by (simp add: sign_nonces_def Let_def signString_def signature_failed_text_def)
next
  fix p
  assume ok: "fst (remoteConfiguration h config conns fw index) = Inr (Ok p)"
  from remoteConfiguration_OkD [OF ok]
  obtain c certobj ev f sig where *:
     "conns index = Some c"
     "getProvisioningCertObj h config conns
       (if truthy (dnsSuffix c) then dnsSuffix c else Null) index = (Inr (Ok certobj), ev)"
     "signString h (f @ generateNonce h) (privateKey certobj) = Ok sig"
    by fastforce
  have t: "truthy (dnsSuffix c)"
    using *(2) by (auto simp: getProvisioningCertObj_def split: if_splits)
  from getProvisioningCertObj_OkD [OF *(2)] t
  obtain d der pfx where d:
    "find_domain (AMTDomains config) (dnsSuffix c) = Some d"
    "readFileSync h (ProvisioningCert d) = Some der"
    "pkcs12FromDer h der (ProvisioningCertPassword d) = Decoded pfx"
    "dumpPfx conns pfx index = Inr (Ok certobj)"
    by auto
  from signString_OkD [OF *(3)] obtain k where "privateKey certobj = Some k"
    by blast
  then have keys: "pfx_keys pfx \<noteq> []"
    using dumpPfx_OkD [OF d(4)] by (auto simp: assemble_privateKey split: if_splits)
  from dumpPfx_Ok_conn [OF d(4)] *(1) obtain H where H: "certHashes c = Some H"
    and m: "hash_match H (case fingerprint (scan_certs 0 (pfx_certs pfx) empty_scan) of
                       None \<Rightarrow> Undefined | Some f \<Rightarrow> Str f)"
    by auto
  have "filter self_signed (tl (pfx_certs pfx)) \<noteq> []"
    if "\<forall>e \<in> set H. \<exists>s. certificateHash e = Str s"
  proof
    assume "filter self_signed (tl (pfx_certs pfx)) = []"
    then have "fingerprint (scan_certs 0 (pfx_certs pfx) empty_scan) = None"
      by (rule scan_certs_no_root)
    with m have "hash_match H Undefined" by simp
    with hash_match_Undefined [OF that] show False by simp
  qed
  with * d keys H
  show "\<exists>c H d der pfx.
            conns index = Some c \<and> certHashes c = Some H \<and>
            find_domain (AMTDomains config) (dnsSuffix c) = Some d \<and>
            readFileSync h (ProvisioningCert d) = Some der \<and>
            pkcs12FromDer h der (ProvisioningCertPassword d) = Decoded pfx \<and>
            pfx_keys pfx \<noteq> [] \<and>
            ((\<forall>e \<in> set H. \<exists>s. certificateHash e = Str s) \<longrightarrow>
               filter self_signed (tl (pfx_certs pfx)) \<noteq> [])"
    by blast
qed

text \<open>
  The claim as stated fails: for a container of leaf and one intermediate and a device
  whose one hash entry has no \<open>certificateHash\<close>, the undefined fingerprint equals the
  undefined hash, and the payload carries the chain leaf, intermediate, \<open>undefined\<close>.
  With the scenario's hashes the same container is rejected, with the text that an
  untrusted root gets.
\<close>

theorem incomplete_container_counterexample:
  "filter self_signed (pfx_certs rootless_pfx) = []
   \<and> fst (remoteConfiguration (demo_host rootless_pfx) demo_config
            [0 \<mapsto> demo_connection trusted_hashes] (Some demo_fwNonce) 0)
     = Inr (ErrorText ''Provisioning Certificate doesn't match any trusted certificates from AMT'')
   \<and> fst (remoteConfiguration (demo_host rootless_pfx) demo_config
            [0 \<mapsto> demo_connection [\<lparr>certificateHash = Undefined\<rparr>]] (Some demo_fwNonce) 0)
     = Inr (Ok \<lparr>action = ''acmactivate'',
          certs = \<lparr>certChain =
              [Str (crlf @ ''Y2VydC1sZWFm'' @ crlf @ crlf),
               Str (crlf @ ''Y2VydC1pbnRlcjE='' @ crlf @ crlf),
               Undefined],
            privateKey = None\<rparr>,
          nonce = ''BRYnOElaa3yNnq/A0eLzBBUmN0g='',
          signature = ''SDcmFQTz4tHAr56NfGtaSTgnFgUUExIREA8ODQwLCgkIBwYFBAMCAQ=='',
          password = ''0591c04939ebfbaed12d7c3e62a2ce46'',
          profileScript = Null\<rparr>)"
  by code_simp

text \<open>The scenario's container without its root, without its key, and complete.\<close>

theorem incomplete_container_witness:
  "dumpPfx [0 \<mapsto> demo_connection trusted_hashes] rootless_pfx 0 =
     Inr (ErrorText ''Provisioning Certificate doesn't match any trusted certificates from AMT'')
   \<and> fst (remoteConfiguration (demo_host keyless_pfx) demo_config
            [0 \<mapsto> demo_connection trusted_hashes] (Some demo_fwNonce) 0)
     = Inr (ErrorText ''Unable to create Digital Signature'')
   \<and> (\<exists>p. fst (remoteConfiguration (demo_host demo_pfx) demo_config
            [0 \<mapsto> demo_connection trusted_hashes] (Some demo_fwNonce) 0) = Inr (Ok p))
   \<and> pfx_keys demo_pfx \<noteq> [] \<and> filter self_signed (tl (pfx_certs demo_pfx)) \<noteq> []"
proof -
  let ?c = "demo_connection trusted_hashes"
  have pre: "[0 \<mapsto> ?c] 0 = Some ?c \<and> certHashes ?c = Some trusted_hashes \<and>
           (\<forall>e \<in> set trusted_hashes. \<exists>s. certificateHash e = Str s) \<and>
           filter self_signed (tl (pfx_certs rootless_pfx)) = []"
    by (simp add: demo_connection_def trusted_hashes_def rootless_pfx_def self_signed_def
        inter1_cert_def)
  note a = incomplete_container [where conns = "[0 \<mapsto> ?c]" and index = 0
      and pfxobj = rootless_pfx and h = "demo_host demo_pfx" and config = demo_config
      and fw = "Some demo_fwNonce", THEN conjunct1, rule_format, OF pre]
  have keyless: "fst (remoteConfiguration (demo_host keyless_pfx) demo_config
            [0 \<mapsto> ?c] (Some demo_fwNonce) 0)
     = Inr (ErrorText ''Unable to create Digital Signature'')"
    by code_simp
  obtain r ev where "remoteConfiguration (demo_host demo_pfx) demo_config
            [0 \<mapsto> ?c] (Some demo_fwNonce) 0 = (Inr (Ok r), ev)"
    using demo_remoteConfiguration by blast
  then have ok: "fst (remoteConfiguration (demo_host demo_pfx) demo_config
            [0 \<mapsto> ?c] (Some demo_fwNonce) 0) = Inr (Ok r)"
    by simp
  have rest: "pfx_keys demo_pfx \<noteq> [] \<and> filter self_signed (tl (pfx_certs demo_pfx)) \<noteq> []"
    by (simp add: demo_pfx_def self_signed_def root_cert_def)
  from a keyless ok rest show ?thesis
    by blast
qed

section \<open>The dispatcher and the message-sending path\<close>

text \<open>
  Without a global \<open>status\<close>, \<open>obj.sendMessage\<close> throws before it reaches the
  transport, whatever the message; so no call of the handler ever sends anything, and a
  string that does not parse always ends in the ReferenceError.
\<close>

lemma sendMessage_no_status:
  "globals st ''status'' = None \<Longrightarrow>
     fst (sendMessage st index message) = Some (ReferenceError ''status'') \<and>
     sent (snd (sendMessage st index message)) = sent st \<and>
     globals (snd (sendMessage st index message)) = globals st"
  by (simp add: sendMessage_def obj_output_def Let_def)

lemma dispatch_never_sends:
  assumes "globals st ''status'' = None"
  shows "sent (snd (dispatch h config st ev m index)) = sent st"
proof -
  have "sent (snd (acmactivate h config st m index)) = sent st"
    using assms sendMessage_no_status
    by (auto simp: acmactivate_def Let_def obj_output_def split: option.splits prod.splits sum.splits reply.splits)
  then show ?thesis
    by (simp add: dispatch_def obj_output_def)
qed

lemma handler_never_sends:
  assumes "globals st ''status'' = None"
  shows "sent (snd (wsConnectionHandler h config st ev message index)) = sent st"
proof -
  define st0 where "st0 = (case connection st index of
                   None \<Rightarrow> st\<lparr>connection := (connection st)(index \<mapsto> new_connection)\<rparr>
                 | Some c \<Rightarrow> st)"
  have g: "globals st0 ''status'' = None" and s: "sent st0 = sent st"
    using assms by (auto simp: st0_def split: option.splits)
  have g': "globals (obj_output t st0) ''status'' = None" for t
    using g by (simp add: obj_output_def)
  have s': "sent (obj_output t st0) = sent st" for t
    using s by (simp add: obj_output_def)
  show ?thesis
  proof (cases message)
    case (Text x)
    show ?thesis
    proof (cases "JSON_parse h x")
      case None
      from sendMessage_no_status [OF g', of invalid_message_text index "ErrorText invalid_message_text"]
      show ?thesis
        using Text None s'
        by (auto simp: wsConnectionHandler_def Let_def st0_def [symmetric] split: prod.splits option.splits)
    next
      case (Some a)
      then show ?thesis
        using Text dispatch_never_sends [OF g] s
        by (cases a) (simp_all add: wsConnectionHandler_def Let_def st0_def [symmetric])
    qed
  next
    case (Binary x)
    then show ?thesis
      using dispatch_never_sends [OF g] s
      by (simp add: wsConnectionHandler_def Let_def st0_def [symmetric])
  next
    case (Structured x)
    then show ?thesis
      using dispatch_never_sends [OF g] s
      by (simp add: wsConnectionHandler_def Let_def st0_def [symmetric])
  qed
qed

lemma handler_invalid_json:
  assumes "JSON_parse h s = None" and "globals st ''status'' = None"
  shows "fst (wsConnectionHandler h config st ev (Text s) index) = Some (ReferenceError ''status'')"
proof -
  define st0 where "st0 = (case connection st index of
                   None \<Rightarrow> st\<lparr>connection := (connection st)(index \<mapsto> new_connection)\<rparr>
                 | Some c \<Rightarrow> st)"
  have g: "globals (obj_output t st0) ''status'' = None" for t
    using assms by (auto simp: st0_def obj_output_def split: option.splits)
  from sendMessage_no_status [OF g, of invalid_message_text index "ErrorText invalid_message_text"]
  show ?thesis
    using assms
    by (auto simp: wsConnectionHandler_def Let_def st0_def [symmetric] split: prod.splits option.splits)
qed

text \<open>
  Claim C6 does not hold of the code. On a service that has just started, with a
  global object that has no \<open>status\<close> property (node's), the string \<open>not json\<close> makes
  \<open>JSON.parse\<close> throw; the \<open>catch\<close> block logs the error and calls
  \<open>obj.sendMessage\<close>, which reads the undeclared \<open>status\<close>: a ReferenceError leaves
  the handler and nothing is sent. Where the global object does have a \<open>status\<close>, the
  string \<open>null\<close> parses and \<open>message.action\<close> throws a TypeError, and an
  \<open>acmactivate\<close> for an unknown domain reaches the call of the undeclared
  \<open>sendMessage\<close> of line 96, a ReferenceError, before anything is sent.
\<close>

theorem invalid_json_throws:
  "JSON_parse (demo_host demo_pfx) ''not json'' = None
   \<and> fst (wsConnectionHandler (demo_host demo_pfx) demo_config fresh_rcs ''message''
           (Text ''not json'') 0) = Some (ReferenceError ''status'')
   \<and> sent (snd (wsConnectionHandler (demo_host demo_pfx) demo_config fresh_rcs ''message''
           (Text ''not json'') 0)) = []
   \<and> console (snd (wsConnectionHandler (demo_host demo_pfx) demo_config fresh_rcs ''message''
           (Text ''not json'') 0)) = [Output ''Invalid message from client'']
   \<and> fst (wsConnectionHandler (demo_host demo_pfx) demo_config
           (fresh_rcs\<lparr>globals := [''status'' \<mapsto> Null]\<rparr>) ''message'' (Text ''null'') 0)
       = Some TypeError
   \<and> fst (wsConnectionHandler (demo_host demo_pfx) demo_config
           (fresh_rcs\<lparr>globals := [''status'' \<mapsto> Null]\<rparr>) ''acmactivate''
           (Structured unknown_domain_message) 0)
       = Some (ReferenceError ''sendMessage'')
   \<and> sent (snd (wsConnectionHandler (demo_host demo_pfx) demo_config
           (fresh_rcs\<lparr>globals := [''status'' \<mapsto> Null]\<rparr>) ''acmactivate''
           (Structured unknown_domain_message) 0)) = []"
  by code_simp

section \<open>The configuration script\<close>

text \<open>
  What lines 170 to 174 do when the connection's index is an index of
  \<open>AMTConfigurations\<close>: a path that is null, empty or undefined, and a file that cannot
  be read, give \<open>profileScript: null\<close> and no exception.
\<close>

lemma read_script_in_range:
  assumes "cindex < length (AMTConfigurations config)"
    and "ConfigurationScript (AMTConfigurations config ! cindex) = path"
    and "path = Null \<or> path = Str [] \<or> path = Undefined \<or>
         (\<exists>f. path = Str f \<and> readFileSync h f = None)"
  shows "fst (read_script h config cindex) = Inr Null"
  using assms by (auto simp: read_script_def Let_def)

text \<open>
  Claim C10 does not hold of the code: the script is looked up at the connection's
  index, not at the resolved profile. With the one profile of the scenario, whose
  script is null, the device on connection 1 reaches the script lookup and gets a
  TypeError instead of a payload. With a second profile that has a script, the device
  on connection 1 that asks for the first profile (script null) gets the second
  profile's script.
\<close>

theorem script_lookup_by_connection_index:
  "AMTConfigurations demo_config =
     [\<lparr>ProfileName = ''default'', AMTPassword = ''pw1'', ConfigurationScript = Null\<rparr>]
   \<and> fst (remoteConfiguration (demo_host demo_pfx) demo_config
           [1 \<mapsto> demo_connection trusted_hashes] (Some demo_fwNonce) 1) = Inl TypeError
   \<and> (case fst (remoteConfiguration (demo_host demo_pfx) kiosk_config
           [1 \<mapsto> (demo_connection trusted_hashes)\<lparr>profile := Str ''default''\<rparr>]
           (Some demo_fwNonce) 1) of
         Inr (Ok p) \<Rightarrow>
           profileScript p = Str ''#1'' \<and> password p = ''0591c04939ebfbaed12d7c3e62a2ce46''
       | Inr (ErrorText t) \<Rightarrow> False
       | Inl e \<Rightarrow> False)"
  by code_simp

end
